theory Spec2Isabelle
  imports Complex_Main "HOL-Library.Stream" "HOL-Library.Word"
begin

unbundle bit_operations_syntax

section \<open>The telemetry generator of \<open>src/entities/asset.py\<close>\<close>

text \<open>
  The module samples sensor readings for an asset type and scores them. Python floats
  are read here as real numbers with exact arithmetic: every statement below is about
  that reading of the code. Exceptions are values of a sum type, and the process-wide
  generator of the \<open>random\<close> module is a state that every drawing function takes and
  returns.
\<close>

subsection \<open>The library functions the module calls\<close>

datatype error = ZeroDivisionError

text \<open>
  The state of the \<open>random\<close> module is the sequence of raw outcomes it will still
  deliver; each library call below consumes one. \<open>random.random()\<close> returns a multiple
  of \<open>2^-53\<close> in \<open>[0, 1)\<close>, \<open>random.uniform(a, b)\<close> is \<open>a + (b - a) * random()\<close>, and
  \<open>random.choice(seq)\<close> is \<open>seq[i]\<close> for an index \<open>i\<close> below \<open>len(seq)\<close> (the module only
  calls it on non-empty literals). A raw outcome \<open>n\<close> is read as the fraction
  \<open>(n mod 2^53) / 2^53\<close> by the first and as the index \<open>n mod len(seq)\<close> by the last, so
  that every sequence of results the library can deliver is the reading of some state.
\<close>

type_synonym rng = "nat stream"

definition random :: "rng \<Rightarrow> real \<times> rng" where
  "random g = (real (shd g mod 2 ^ 53) / 2 ^ 53, stl g)"

definition uniform :: "real \<Rightarrow> real \<Rightarrow> rng \<Rightarrow> real \<times> rng" where
  "uniform a b g = (case random g of (u, g') \<Rightarrow> (a + (b - a) * u, g'))"

definition choice :: "'a list \<Rightarrow> rng \<Rightarrow> 'a \<times> rng" where
  "choice xs g = (xs ! (shd g mod length xs), stl g)"

text \<open>
  \<open>round(x, ndigits)\<close> rounds to the nearest multiple of \<open>10^-ndigits\<close>, a tie going to
  the even neighbour.
\<close>

definition round_half_even :: "real \<Rightarrow> int" where
  "round_half_even y =
     (let f = \<lfloor>y\<rfloor>; d = y - of_int f
      in if d < 1 / 2 then f
         else if 1 / 2 < d then f + 1
         else if even f then f else f + 1)"

definition py_round :: "real \<Rightarrow> nat \<Rightarrow> real" where
  "py_round x ndigits = of_int (round_half_even (x * 10 ^ ndigits)) / 10 ^ ndigits"

text \<open>
  \<open>uuid.uuid4()\<close> does not read the \<open>random\<close> module: it takes sixteen bytes from
  \<open>os.urandom\<close>, sets the variant and version bits, and \<open>str\<close> prints the 128-bit value
  as 32 hexadecimal digits in groups of 8-4-4-4-12. The sixteen bytes are an input of
  the model.
\<close>

definition uuid4 :: "128 word \<Rightarrow> 128 word" where
  "uuid4 b =
     (let i1 = b AND NOT (push_bit 48 0xc000);
          i2 = i1 OR push_bit 48 0x8000;
          i3 = i2 AND NOT (push_bit 64 0xf000)
      in i3 OR push_bit 76 4)"

definition hex_digit :: "nat \<Rightarrow> char" where
  "hex_digit d = ''0123456789abcdef'' ! d"

fun hex :: "nat \<Rightarrow> nat \<Rightarrow> string" where
  "hex 0 n = []"
| "hex (Suc k) n = hex k (n div 16) @ [hex_digit (n mod 16)]"

definition str_uuid :: "128 word \<Rightarrow> string" where
  "str_uuid u =
     (let h = hex 32 (unat u)
      in take 8 h @ ''-'' @ take 4 (drop 8 h) @ ''-'' @ take 4 (drop 12 h) @ ''-''
         @ take 4 (drop 16 h) @ ''-'' @ drop 20 h)"

subsection \<open>Asset.get_type_map\<close>

text \<open>A dict literal is the list of its items, read through \<open>map_of\<close>.\<close>

definition get_type_map :: "(string \<times> string) list" where
  "get_type_map =
     [(''Robotic Arm'', ''Assembly''),
      (''Automated Press'', ''Press''),
      (''Conveyor Belt'', ''Conveyor''),
      (''Packaging Line'', ''Packaging'')]"

subsection \<open>AssetMetric\<close>

text \<open>
  The fields \<open>Min\<close> and \<open>Max\<close> are \<open>Min_val\<close> and \<open>Max_val\<close> here. \<open>DefectFactor\<close> is
  annotated \<open>int\<close> in the source, but the table stores \<open>0.5\<close> in it and nothing checks
  the annotation, so it is a real number like the other fields.
\<close>

record AssetMetric =
  Min_val :: real
  Max_val :: real
  Variation :: real
  DefectFactor :: real

text \<open>
  The constructor the \<open>@dataclass\<close> decorator generates stores its four arguments; the
  class has no \<open>__post_init__\<close>.
\<close>

definition AssetMetric_init :: "real \<Rightarrow> real \<Rightarrow> real \<Rightarrow> real \<Rightarrow> error + AssetMetric" where
  "AssetMetric_init mn mx v d =
     Inr \<lparr>Min_val = mn, Max_val = mx, Variation = v, DefectFactor = d\<rparr>"

text \<open>
  \<open>calculate_random_value\<close>, in three steps: the local \<open>anomaly_variation\<close>, the local
  \<open>value\<close> as it stands before the \<open>return\<close>, and the returned \<open>round(max(0, value), 2)\<close>.
\<close>

definition anomaly_variation :: "AssetMetric \<Rightarrow> real \<Rightarrow> rng \<Rightarrow> real \<times> rng" where
  "anomaly_variation m variation_multiplier g =
     (case uniform (Variation m * 0.5) (Variation m * 1.5) g of
        (x, g') \<Rightarrow> (x * variation_multiplier, g'))"

definition random_value :: "AssetMetric \<Rightarrow> bool \<Rightarrow> real \<Rightarrow> rng \<Rightarrow> real \<times> rng" where
  "random_value m anomaly variation_multiplier g =
     (case uniform (Min_val m) (Max_val m) g of
        (val, g1) \<Rightarrow>
          if anomaly then
            (case anomaly_variation m variation_multiplier g1 of
               (av, g2) \<Rightarrow>
                 (case choice [True, False] g2 of
                    (c, g3) \<Rightarrow>
                      if c then (Max_val m + av, g3) else (Min_val m - av, g3)))
          else (val, g1))"

definition calculate_random_value :: "AssetMetric \<Rightarrow> bool \<Rightarrow> real \<Rightarrow> rng \<Rightarrow> real \<times> rng" where
  "calculate_random_value m anomaly variation_multiplier g =
     (case random_value m anomaly variation_multiplier g of
        (val, g') \<Rightarrow> (py_round (max 0 val) 2, g'))"

text \<open>Dividing by a zero \<open>DefectFactor\<close> raises \<open>ZeroDivisionError\<close>.\<close>

definition calc_defect_factor :: "AssetMetric \<Rightarrow> real \<Rightarrow> error + real" where
  "calc_defect_factor m val =
     (if DefectFactor m = 0 then Inl ZeroDivisionError
      else Inr (max 0 (max ((val - Max_val m) / DefectFactor m)
                           ((Min_val m - val) / DefectFactor m))))"

subsection \<open>AssetType\<close>

record AssetType =
  Name :: string
  Vibration :: AssetMetric
  Temperature :: AssetMetric
  Humidity :: AssetMetric
  Speed :: AssetMetric

definition AssetType_init ::
  "string \<Rightarrow> AssetMetric \<Rightarrow> AssetMetric \<Rightarrow> AssetMetric \<Rightarrow> AssetMetric \<Rightarrow> error + AssetType" where
  "AssetType_init n v t h s =
     Inr \<lparr>Name = n, Vibration = v, Temperature = t, Humidity = h, Speed = s\<rparr>"

text \<open>
  The three factors are computed first, each of which may raise; the jitter is drawn
  only after them.
\<close>

definition calculate_defect_probability ::
  "AssetType \<Rightarrow> real \<Rightarrow> real \<Rightarrow> real \<Rightarrow> rng \<Rightarrow> (error + real) \<times> rng" where
  "calculate_defect_probability t vibration temperature speed g =
     (case calc_defect_factor (Vibration t) vibration of
        Inl e \<Rightarrow> (Inl e, g)
      | Inr vibration_factor \<Rightarrow>
     (case calc_defect_factor (Temperature t) temperature of
        Inl e \<Rightarrow> (Inl e, g)
      | Inr temp_factor \<Rightarrow>
     (case calc_defect_factor (Speed t) speed of
        Inl e \<Rightarrow> (Inl e, g)
      | Inr speed_factor \<Rightarrow>
     (case uniform 0.8 1.2 g of
        (j, g') \<Rightarrow>
          (Inr (min (py_round ((vibration_factor * 0.4 + temp_factor * 0.3
                                 + speed_factor * 0.3) * j) 2) 1.0), g')))))"

text \<open>
  The first block of \<open>create_random_event\<close>: the list \<open>anomaly_metrics\<close> as it stands
  when the sampling starts.
\<close>

definition anomaly_metrics :: "bool \<Rightarrow> rng \<Rightarrow> string list \<times> rng" where
  "anomaly_metrics anomaly g =
     (if anomaly then
        (case choice [True, False] g of (c1, g1) \<Rightarrow>
         case choice [True, False] g1 of (c2, g2) \<Rightarrow>
         case choice [True, False] g2 of (c3, g3) \<Rightarrow>
         case choice [True, False] g3 of (c4, g4) \<Rightarrow>
           let ms = (if c1 then [''vibration''] else [])
                    @ (if c2 then [''temperature''] else [])
                    @ (if c3 then [''humidity''] else [])
                    @ (if c4 then [''speed''] else [])
           in if ms = [] then
                (case choice [''vibration'', ''temperature'', ''humidity'', ''speed''] g4 of
                   (x, g5) \<Rightarrow> ([x], g5))
              else (ms, g4))
      else ([], g))"

text \<open>
  Modelled from the spec: the class \<open>Event\<close> of \<open>entities/event.py\<close>, which the module
  imports and whose declaration is not among the sources. Its fields are the keyword
  arguments of the one call that builds it, which are the attributes the specification
  lists for an event record; \<open>Id\<close> and the four readings carry the suffix \<open>_ev\<close>. The
  timestamp is passed through untouched and is a number here.
\<close>

type_synonym datetime = int

record Event =
  Id_ev :: string
  AssetId :: string
  ProductId :: string
  BatchId :: string
  Vibration_ev :: real
  Temperature_ev :: real
  Humidity_ev :: real
  Speed_ev :: real
  DefectProbability :: real
  Timestamp :: datetime

definition create_random_event ::
  "AssetType \<Rightarrow> string \<Rightarrow> string \<Rightarrow> string \<Rightarrow> datetime \<Rightarrow> bool \<Rightarrow> real
     \<Rightarrow> rng \<Rightarrow> 128 word \<Rightarrow> (error + Event) \<times> rng" where
  "create_random_event t asset_id product_id batch_id timestamp anomaly variation_multiplier
       g urandom =
     (case anomaly_metrics anomaly g of (ms, g0) \<Rightarrow>
      case calculate_random_value (Vibration t)
             (anomaly \<and> ''vibration'' \<in> set ms) variation_multiplier g0 of (vibration, g1) \<Rightarrow>
      case calculate_random_value (Temperature t)
             (anomaly \<and> ''temperature'' \<in> set ms) variation_multiplier g1 of (temperature, g2) \<Rightarrow>
      case calculate_random_value (Humidity t)
             (anomaly \<and> ''humidity'' \<in> set ms) variation_multiplier g2 of (humidity, g3) \<Rightarrow>
      case calculate_random_value (Speed t)
             (anomaly \<and> ''speed'' \<in> set ms) variation_multiplier g3 of (speed, g4) \<Rightarrow>
      case calculate_defect_probability t vibration temperature speed g4 of
        (Inl e, g5) \<Rightarrow> (Inl e, g5)
      | (Inr defect_probability, g5) \<Rightarrow>
          (Inr \<lparr>Id_ev = str_uuid (uuid4 urandom),
                AssetId = asset_id,
                ProductId = product_id,
                BatchId = batch_id,
                Vibration_ev = vibration,
                Temperature_ev = temperature,
                Humidity_ev = humidity,
                Speed_ev = speed,
                DefectProbability = defect_probability,
                Timestamp = timestamp\<rparr>, g5))"

subsection \<open>AssetType.get_types\<close>

text \<open>
  The table is written with the records its constructor calls return. Each entry of
  the dict is a definition of its own, named after its key.
\<close>

definition Assembly :: AssetType where
  "Assembly =
     \<lparr>Name = ''Assembly'',
      Vibration = \<lparr>Min_val = 0.1, Max_val = 0.3, Variation = 0.08, DefectFactor = 0.5\<rparr>,
      Temperature = \<lparr>Min_val = 20, Max_val = 35, Variation = 3, DefectFactor = 12\<rparr>,
      Humidity = \<lparr>Min_val = 30, Max_val = 70, Variation = 0, DefectFactor = 15\<rparr>,
      Speed = \<lparr>Min_val = 50, Max_val = 100, Variation = 20, DefectFactor = 20\<rparr>\<rparr>"

definition Press :: AssetType where
  "Press =
     \<lparr>Name = ''Press'',
      Vibration = \<lparr>Min_val = 0.2, Max_val = 0.8, Variation = 0.08, DefectFactor = 0.5\<rparr>,
      Temperature = \<lparr>Min_val = 25, Max_val = 45, Variation = 5, DefectFactor = 15\<rparr>,
      Humidity = \<lparr>Min_val = 30, Max_val = 70, Variation = 0, DefectFactor = 15\<rparr>,
      Speed = \<lparr>Min_val = 20, Max_val = 60, Variation = 10, DefectFactor = 20\<rparr>\<rparr>"

definition Conveyor :: AssetType where
  "Conveyor =
     \<lparr>Name = ''Conveyor'',
      Vibration = \<lparr>Min_val = 0.05, Max_val = 0.2, Variation = 0.08, DefectFactor = 0.5\<rparr>,
      Temperature = \<lparr>Min_val = 18, Max_val = 30, Variation = 2, DefectFactor = 10\<rparr>,
      Humidity = \<lparr>Min_val = 30, Max_val = 70, Variation = 0, DefectFactor = 15\<rparr>,
      Speed = \<lparr>Min_val = 10, Max_val = 50, Variation = 8, DefectFactor = 20\<rparr>\<rparr>"

definition Packaging :: AssetType where
  "Packaging =
     \<lparr>Name = ''Packaging'',
      Vibration = \<lparr>Min_val = 0.1, Max_val = 0.4, Variation = 0.08, DefectFactor = 0.5\<rparr>,
      Temperature = \<lparr>Min_val = 20, Max_val = 40, Variation = 3, DefectFactor = 12\<rparr>,
      Humidity = \<lparr>Min_val = 30, Max_val = 70, Variation = 0, DefectFactor = 15\<rparr>,
      Speed = \<lparr>Min_val = 30, Max_val = 80, Variation = 15, DefectFactor = 20\<rparr>\<rparr>"

definition get_types :: "(string \<times> AssetType) list" where
  "get_types =
     [(''Assembly'', Assembly),
      (''Press'', Press),
      (''Conveyor'', Conveyor),
      (''Packaging'', Packaging)]"

subsection \<open>Notions the statements use\<close>

text \<open>A number with at most two decimal places: a multiple of \<open>0.01\<close>.\<close>

definition two_decimals :: "real \<Rightarrow> bool" where
  "two_decimals c = (of_int \<lfloor>c * 100\<rfloor> = c * 100)"

text \<open>How far a value lies outside the nominal range of a metric; 0 inside it.\<close>

definition range_distance :: "AssetMetric \<Rightarrow> real \<Rightarrow> real" where
  "range_distance m v = max 0 (max (v - Max_val m) (Min_val m - v))"

text \<open>A reading strictly outside the nominal range of its metric.\<close>

definition outside :: "AssetMetric \<Rightarrow> real \<Rightarrow> bool" where
  "outside m v = (v < Min_val m \<or> Max_val m < v)"

text \<open>The sixteen metrics of the table, asset type by asset type.\<close>

definition catalog_metrics :: "AssetMetric list" where
  "catalog_metrics =
     concat (map (\<lambda>(n, t). [Vibration t, Temperature t, Humidity t, Speed t]) get_types)"

text \<open>
  The specification's \<open>deviation_factor\<close> and \<open>defect_probability\<close>, written from its
  words: the factor is \<open>max(0, (value - max) / defect_sensitivity, (min - value) /
  defect_sensitivity)\<close>, the probability is \<open>0.4 * vibration_factor + 0.3 *
  temperature_factor + 0.3 * speed_factor\<close> times the jitter \<open>j\<close>, rounded to two
  decimals and then clamped to at most \<open>1.0\<close>.
\<close>

definition spec_deviation_factor :: "AssetMetric \<Rightarrow> real \<Rightarrow> real" where
  "spec_deviation_factor m v =
     max 0 (max ((v - Max_val m) / DefectFactor m) ((Min_val m - v) / DefectFactor m))"

definition spec_defect_probability :: "AssetType \<Rightarrow> real \<Rightarrow> real \<Rightarrow> real \<Rightarrow> real \<Rightarrow> real" where
  "spec_defect_probability t vibration temperature speed j =
     min 1.0 (py_round ((0.4 * spec_deviation_factor (Vibration t) vibration
                         + 0.3 * spec_deviation_factor (Temperature t) temperature
                         + 0.3 * spec_deviation_factor (Speed t) speed) * j) 2)"

text \<open>
  A function of the random source that reads at most the next \<open>n\<close> outcomes: on two
  states that agree on them it returns the same result, and it leaves each state
  advanced by the same number \<open>k \<le> n\<close> of outcomes.
\<close>

definition reads :: "nat \<Rightarrow> (rng \<Rightarrow> 'a \<times> rng) \<Rightarrow> bool" where
  "reads n f =
     (\<forall>g g'. stake n g = stake n g' \<longrightarrow>
        fst (f g) = fst (f g')
        \<and> (\<exists>k\<le>n. snd (f g) = sdrop k g \<and> snd (f g') = sdrop k g'))"

section \<open>The random source and rounding\<close>

lemma random_range: "0 \<le> fst (random g) \<and> fst (random g) < 1"
  by (simp add: random_def)

lemma uniform_eq: "uniform a b g = (a + (b - a) * fst (random g), stl g)"
  by (simp add: uniform_def random_def)

lemma uniform_lower: "a \<le> b \<Longrightarrow> a \<le> fst (uniform a b g)"
  using random_range [of g] by (simp add: uniform_eq)

lemma uniform_upper: "a \<le> b \<Longrightarrow> fst (uniform a b g) \<le> b"
proof -
  assume ab: "a \<le> b"
  have "(b - a) * fst (random g) \<le> (b - a) * 1"
    using random_range [of g] ab by (intro mult_left_mono) auto
  then show ?thesis by (simp add: uniform_eq)
qed

lemma rhe_ge: "of_int k \<le> y \<Longrightarrow> k \<le> round_half_even y"
  unfolding round_half_even_def Let_def by (auto simp: le_floor_iff) linarith+

lemma rhe_le: "y \<le> of_int k \<Longrightarrow> round_half_even y \<le> k"
  unfolding round_half_even_def Let_def by auto linarith+

lemma rhe_gt_half: "of_int k + 1 / 2 < y \<Longrightarrow> k + 1 \<le> round_half_even y"
  unfolding round_half_even_def Let_def by auto linarith+

lemma rhe_lt_half: "y < of_int k - 1 / 2 \<Longrightarrow> round_half_even y \<le> k - 1"
  unfolding round_half_even_def Let_def by auto linarith+

text \<open>
  Rounding to two places never crosses a number with two places, and it moves a value
  that is more than half a hundredth away from such a number off it.
\<close>

lemma py_round2_ge:
  assumes "two_decimals c" "c \<le> x"
  shows "c \<le> py_round x 2"
proof -
  define k where "k = \<lfloor>c * 100\<rfloor>"
  have "of_int k = c * 100" using assms(1) unfolding two_decimals_def k_def .
  then have c: "c = of_int k / 100" by simp
  have "of_int k \<le> x * 100" using assms(2) c by simp
  then have "k \<le> round_half_even (x * 100)" by (rule rhe_ge)
  then have "(of_int k :: real) \<le> of_int (round_half_even (x * 100))" by simp
  then show ?thesis by (simp add: py_round_def c divide_right_mono)
qed

lemma py_round2_le:
  assumes "two_decimals c" "x \<le> c"
  shows "py_round x 2 \<le> c"
proof -
  define k where "k = \<lfloor>c * 100\<rfloor>"
  have "of_int k = c * 100" using assms(1) unfolding two_decimals_def k_def .
  then have c: "c = of_int k / 100" by simp
  have "x * 100 \<le> of_int k" using assms(2) c by simp
  then have "round_half_even (x * 100) \<le> k" by (rule rhe_le)
  then have "(of_int (round_half_even (x * 100)) :: real) \<le> of_int k" by simp
  then show ?thesis by (simp add: py_round_def c divide_right_mono)
qed

lemma py_round2_gt:
  assumes "two_decimals c" "c + 1 / 200 < x"
  shows "c < py_round x 2"
proof -
  define k where "k = \<lfloor>c * 100\<rfloor>"
  have "of_int k = c * 100" using assms(1) unfolding two_decimals_def k_def .
  then have c: "c = of_int k / 100" by simp
  have "of_int k + 1 / 2 < x * 100" using assms(2) c by simp
  then have "k + 1 \<le> round_half_even (x * 100)" by (rule rhe_gt_half)
  then have "(of_int k :: real) < of_int (round_half_even (x * 100))" by simp
  then show ?thesis by (simp add: py_round_def c divide_strict_right_mono)
qed

lemma py_round2_lt:
  assumes "two_decimals c" "x < c - 1 / 200"
  shows "py_round x 2 < c"
proof -
  define k where "k = \<lfloor>c * 100\<rfloor>"
  have "of_int k = c * 100" using assms(1) unfolding two_decimals_def k_def .
  then have c: "c = of_int k / 100" by simp
  have "x * 100 < of_int k - 1 / 2" using assms(2) c by simp
  then have "round_half_even (x * 100) \<le> k - 1" by (rule rhe_lt_half)
  then have "(of_int (round_half_even (x * 100)) :: real) < of_int k" by simp
  then show ?thesis by (simp add: py_round_def c divide_strict_right_mono)
qed

lemma rhe_near: "y - 1 / 2 \<le> of_int (round_half_even y) \<and> of_int (round_half_even y) \<le> y + 1 / 2"
  unfolding round_half_even_def Let_def by auto linarith+

lemma py_round2_near: "x - 1 / 200 \<le> py_round x 2 \<and> py_round x 2 \<le> x + 1 / 200"
proof -
  have "x * 100 - 1 / 2 \<le> of_int (round_half_even (x * 100))
      \<and> of_int (round_half_even (x * 100)) \<le> x * 100 + 1 / 2"
    by (rule rhe_near)
  then show ?thesis by (simp add: py_round_def field_simps)
qed

lemma two_decimals_0: "two_decimals 0"
  by (simp add: two_decimals_def)

lemma py_round2_fix: "two_decimals c \<Longrightarrow> py_round c 2 = c"
  using py_round2_ge [of c c] py_round2_le [of c c] by simp

section \<open>The deviation factor\<close>

lemma cdf_distance:
  assumes "0 < DefectFactor m"
  shows "calc_defect_factor m v = Inr (range_distance m v / DefectFactor m)"
proof -
  let ?d = "DefectFactor m"
  have "max 0 (max ((v - Max_val m) / ?d) ((Min_val m - v) / ?d))
        = max 0 (max (v - Max_val m) (Min_val m - v)) / ?d"
    using assms by (simp add: max_def divide_le_cancel field_simps)
  then show ?thesis using assms by (simp add: calc_defect_factor_def range_distance_def)
qed

text \<open>
  Claim C5. With a positive \<open>DefectFactor\<close>, \<open>calc_defect_factor\<close> returns
  \<open>max(0, (value - Max) / DefectFactor, (Min - value) / DefectFactor)\<close>: it is 0 for a
  value inside \<open>[Min, Max]\<close>, strictly positive for a value outside, and it grows with
  the distance of the value from the range, strictly where the distance grows strictly.
  It takes no random source and returns none: the result depends on the metric and the
  value only.
\<close>

theorem calc_defect_factor_deviation:
  assumes "0 < DefectFactor m"
  shows "calc_defect_factor m v =
           Inr (max 0 (max ((v - Max_val m) / DefectFactor m)
                           ((Min_val m - v) / DefectFactor m)))
       \<and> (Min_val m \<le> v \<and> v \<le> Max_val m \<longrightarrow> calc_defect_factor m v = Inr 0)
       \<and> (v < Min_val m \<or> Max_val m < v \<longrightarrow> (\<exists>f. calc_defect_factor m v = Inr f \<and> 0 < f))
       \<and> (\<exists>f f'. calc_defect_factor m v = Inr f \<and> calc_defect_factor m v' = Inr f'
            \<and> (range_distance m v \<le> range_distance m v' \<longrightarrow> f \<le> f')
            \<and> (range_distance m v < range_distance m v' \<longrightarrow> f < f'))"
proof (intro conjI impI)
  show "calc_defect_factor m v =
           Inr (max 0 (max ((v - Max_val m) / DefectFactor m)
                           ((Min_val m - v) / DefectFactor m)))"
    using assms by (simp add: calc_defect_factor_def)
next
  assume "Min_val m \<le> v \<and> v \<le> Max_val m"
  then have "range_distance m v = 0" by (simp add: range_distance_def)
  then show "calc_defect_factor m v = Inr 0" by (simp add: cdf_distance [OF assms])
next
  assume "v < Min_val m \<or> Max_val m < v"
  then have "0 < range_distance m v" by (auto simp: range_distance_def max_def)
  then show "\<exists>f. calc_defect_factor m v = Inr f \<and> 0 < f"
    using assms by (simp add: cdf_distance)
next
  show "\<exists>f f'. calc_defect_factor m v = Inr f \<and> calc_defect_factor m v' = Inr f'
            \<and> (range_distance m v \<le> range_distance m v' \<longrightarrow> f \<le> f')
            \<and> (range_distance m v < range_distance m v' \<longrightarrow> f < f')"
    using assms by (simp add: cdf_distance divide_right_mono divide_strict_right_mono)
qed

theorem calc_defect_factor_deviation_witness:
  "0 < DefectFactor (Vibration Press)
   \<and> calc_defect_factor (Vibration Press) 0.5 = Inr 0
   \<and> calc_defect_factor (Vibration Press) 0.9 = Inr 0.2
   \<and> calc_defect_factor (Vibration Press) 0.1 = Inr 0.2
   \<and> range_distance (Vibration Press) 0.5 < range_distance (Vibration Press) 0.9"
  using calc_defect_factor_deviation [of "Vibration Press" "0.5" "0.9"]
        calc_defect_factor_deviation [of "Vibration Press" "0.9" "0.1"]
  by (simp add: Press_def range_distance_def calc_defect_factor_def)

section \<open>The defect probability\<close>

lemma cdf_nonzero:
  "DefectFactor m \<noteq> 0 \<Longrightarrow> calc_defect_factor m v = Inr (spec_deviation_factor m v)"
  by (simp add: calc_defect_factor_def spec_deviation_factor_def)

lemma spec_deviation_factor_nonneg: "0 \<le> spec_deviation_factor m v"
  by (simp add: spec_deviation_factor_def)

lemma uniform_snd: "snd (uniform a b g) = stl g"
  by (simp add: uniform_eq)

lemma cdp_nonzero:
  assumes "DefectFactor (Vibration t) \<noteq> 0" "DefectFactor (Temperature t) \<noteq> 0"
    "DefectFactor (Speed t) \<noteq> 0"
  shows "calculate_defect_probability t v te s g =
           (Inr (spec_defect_probability t v te s (fst (uniform 0.8 1.2 g))), stl g)"
  using assms
  by (simp add: calculate_defect_probability_def cdf_nonzero spec_defect_probability_def
      case_prod_beta uniform_snd mult.commute)

lemma cdp_zero:
  assumes "DefectFactor (Vibration t) = 0 \<or> DefectFactor (Temperature t) = 0
    \<or> DefectFactor (Speed t) = 0"
  shows "calculate_defect_probability t v te s g = (Inl ZeroDivisionError, g)"
  using assms
  by (auto simp: calculate_defect_probability_def calc_defect_factor_def)

lemma jitter_range: "0.8 \<le> fst (uniform 0.8 1.2 g) \<and> fst (uniform 0.8 1.2 g) \<le> 1.2"
  using uniform_lower [of "0.8" "1.2" g] uniform_upper [of "0.8" "1.2" g] by simp

lemma spec_defect_probability_range:
  assumes "0 \<le> j"
  shows "0 \<le> spec_defect_probability t v te s j \<and> spec_defect_probability t v te s j \<le> 1"
proof -
  let ?w = "0.4 * spec_deviation_factor (Vibration t) v
            + 0.3 * spec_deviation_factor (Temperature t) te
            + 0.3 * spec_deviation_factor (Speed t) s"
  have "0 \<le> ?w"
    using spec_deviation_factor_nonneg [of "Vibration t" v]
      spec_deviation_factor_nonneg [of "Temperature t" te]
      spec_deviation_factor_nonneg [of "Speed t" s] by simp
  then have "0 \<le> ?w * j" using assms by simp
  then have "0 \<le> py_round (?w * j) 2" by (rule py_round2_ge [OF two_decimals_0])
  then show ?thesis by (simp add: spec_defect_probability_def)
qed

lemma press_at_upper_bound: "spec_defect_probability Press 0.8 45 60 j = 0"
  by (simp add: spec_defect_probability_def spec_deviation_factor_def Press_def
      py_round_def round_half_even_def)

text \<open>
  Claim C4. \<open>calculate_defect_probability\<close> returns the specification's formula
  \<open>min(1.0, round((0.4 * vf + 0.3 * tf + 0.3 * sf) * j, 2))\<close> on the deviation factors
  of vibration, temperature and speed, where the jitter \<open>j\<close> is the draw
  \<open>uniform(0.8, 1.2)\<close> and lies in \<open>[0.8, 1.2]\<close>; the humidity metric has no part in it;
  and for Press at vibration 0.8, temperature 45 and speed 60 the result is 0 whatever
  the jitter. The three \<open>DefectFactor\<close>s are nonzero, as the formula presupposes.
\<close>

theorem calculate_defect_probability_formula:
  assumes "DefectFactor (Vibration t) \<noteq> 0" "DefectFactor (Temperature t) \<noteq> 0"
    "DefectFactor (Speed t) \<noteq> 0"
  shows "fst (calculate_defect_probability t v te s g) =
           Inr (spec_defect_probability t v te s (fst (uniform 0.8 1.2 g)))
       \<and> 0.8 \<le> fst (uniform 0.8 1.2 g) \<and> fst (uniform 0.8 1.2 g) \<le> 1.2
       \<and> calculate_defect_probability (t\<lparr>Humidity := h\<rparr>) v te s g =
           calculate_defect_probability t v te s g
       \<and> fst (calculate_defect_probability Press 0.8 45 60 g) = Inr 0"
proof -
  have "calculate_defect_probability Press 0.8 45 60 g =
          (Inr (spec_defect_probability Press 0.8 45 60 (fst (uniform 0.8 1.2 g))), stl g)"
    by (rule cdp_nonzero) (simp_all add: Press_def)
  then have "fst (calculate_defect_probability Press 0.8 45 60 g) = Inr 0"
    by (simp only: press_at_upper_bound fst_conv)
  moreover have "calculate_defect_probability (t\<lparr>Humidity := h\<rparr>) v te s g =
           calculate_defect_probability t v te s g"
    by (simp add: calculate_defect_probability_def split: sum.splits)
  ultimately show ?thesis
    using jitter_range [of g] by (simp add: cdp_nonzero [OF assms])
qed

theorem calculate_defect_probability_formula_witness:
  "DefectFactor (Vibration Press) \<noteq> 0 \<and> DefectFactor (Temperature Press) \<noteq> 0
   \<and> DefectFactor (Speed Press) \<noteq> 0
   \<and> fst (calculate_defect_probability Press 1 45 60 (sconst 0)) = Inr 0.13
   \<and> fst (calculate_defect_probability Press 0.8 45 60 (sconst 0)) = Inr 0"
  using calculate_defect_probability_formula [of Press "1" "45" "60" "sconst 0" "Humidity Press"]
  by (simp add: Press_def spec_defect_probability_def spec_deviation_factor_def uniform_eq
      random_def py_round_def round_half_even_def)

text \<open>
  Claim C7. For every vibration, temperature and speed and every outcome of the jitter
  draw, \<open>calculate_defect_probability\<close> returns a value in \<open>[0, 1]\<close>: at most 1 by the
  clamp, at least 0 because the factors are, the jitter is, and rounding keeps 0 below.
  The three \<open>DefectFactor\<close>s are nonzero, so that the function returns.
\<close>

theorem calculate_defect_probability_range:
  assumes "DefectFactor (Vibration t) \<noteq> 0" "DefectFactor (Temperature t) \<noteq> 0"
    "DefectFactor (Speed t) \<noteq> 0"
  shows "\<exists>p. fst (calculate_defect_probability t v te s g) = Inr p \<and> 0 \<le> p \<and> p \<le> 1"
proof -
  have "0 \<le> fst (uniform 0.8 1.2 g)" using jitter_range [of g] by simp
  then show ?thesis
    using spec_defect_probability_range [of "fst (uniform 0.8 1.2 g)" t v te s]
    by (simp add: cdp_nonzero [OF assms])
qed

theorem calculate_defect_probability_range_witness:
  "DefectFactor (Vibration Press) \<noteq> 0 \<and> DefectFactor (Temperature Press) \<noteq> 0
   \<and> DefectFactor (Speed Press) \<noteq> 0
   \<and> fst (calculate_defect_probability Press 9 45 60 (sconst 0)) = Inr 1"
  using calculate_defect_probability_range [of Press "9" "45" "60" "sconst 0"]
  by (simp add: Press_def calculate_defect_probability_def calc_defect_factor_def uniform_eq
      random_def py_round_def round_half_even_def)

section \<open>Sampling a metric\<close>

lemma random_value_normal:
  "random_value m False mult g = (fst (uniform (Min_val m) (Max_val m) g), stl g)"
  by (simp add: random_value_def uniform_eq)

lemma random_value_anomalous:
  "random_value m True mult g =
     (if fst (choice [True, False] (stl (stl g)))
      then Max_val m + fst (anomaly_variation m mult (stl g))
      else Min_val m - fst (anomaly_variation m mult (stl g)), stl (stl (stl g)))"
  by (simp add: random_value_def uniform_eq anomaly_variation_def choice_def)

lemma calculate_random_value_eq:
  "calculate_random_value m a mult g =
     (py_round (max 0 (fst (random_value m a mult g))) 2, snd (random_value m a mult g))"
  by (simp add: calculate_random_value_def case_prod_beta)

lemma anomaly_variation_eq:
  "fst (anomaly_variation m mult g) =
     fst (uniform (Variation m * 0.5) (Variation m * 1.5) g) * mult"
  by (simp add: anomaly_variation_def case_prod_beta)

lemma anomaly_variation_lower:
  assumes "0 \<le> Variation m" "0 \<le> mult"
  shows "Variation m * 0.5 * mult \<le> fst (anomaly_variation m mult g)"
proof -
  have "Variation m * 0.5 \<le> Variation m * 1.5" using assms(1) by simp
  then have "Variation m * 0.5 \<le> fst (uniform (Variation m * 0.5) (Variation m * 1.5) g)"
    by (rule uniform_lower)
  then show ?thesis
    unfolding anomaly_variation_eq using assms(2) by (rule mult_right_mono)
qed

lemma anomaly_variation_mono:
  assumes "0 \<le> Variation m" "mult \<le> mult'"
  shows "fst (anomaly_variation m mult g) \<le> fst (anomaly_variation m mult' g)"
proof -
  have "Variation m * 0.5 \<le> Variation m * 1.5" using assms(1) by simp
  then have "Variation m * 0.5 \<le> fst (uniform (Variation m * 0.5) (Variation m * 1.5) g)"
    by (rule uniform_lower)
  then have "0 \<le> fst (uniform (Variation m * 0.5) (Variation m * 1.5) g)"
    using assms(1) by simp
  then show ?thesis
    unfolding anomaly_variation_eq using assms(2) by (intro mult_left_mono)
qed

lemma normal_value_in_range:
  assumes "Min_val m \<le> Max_val m" "0 \<le> Max_val m"
    "two_decimals (max 0 (Min_val m))" "two_decimals (Max_val m)"
  shows "max 0 (Min_val m) \<le> fst (calculate_random_value m False mult g)
       \<and> fst (calculate_random_value m False mult g) \<le> Max_val m"
proof -
  let ?v = "fst (uniform (Min_val m) (Max_val m) g)"
  have lo: "Min_val m \<le> ?v" using assms(1) by (rule uniform_lower)
  have hi: "?v \<le> Max_val m" using assms(1) by (rule uniform_upper)
  have "max 0 (Min_val m) \<le> max 0 ?v" using lo by simp
  then have a: "max 0 (Min_val m) \<le> py_round (max 0 ?v) 2"
    by (rule py_round2_ge [OF assms(3)])
  have "max 0 ?v \<le> Max_val m" using hi assms(2) by simp
  then have b: "py_round (max 0 ?v) 2 \<le> Max_val m"
    by (rule py_round2_le [OF assms(4)])
  show ?thesis using a b by (simp add: calculate_random_value_eq random_value_normal)
qed

text \<open>
  Claim C6, as the code has it. The claim asks for \<open>Min \<le> Max\<close> only, and then fails:
  rounding to two decimals leaves a range whose bounds have more than two, and the floor
  at 0 leaves a range that lies below 0.
\<close>

theorem normal_sample_in_range_counterexample:
  "Min_val \<lparr>Min_val = 0.123, Max_val = 0.124, Variation = 0, DefectFactor = 1\<rparr>
     \<le> Max_val \<lparr>Min_val = 0.123, Max_val = 0.124, Variation = 0, DefectFactor = 1\<rparr>
   \<and> fst (calculate_random_value
            \<lparr>Min_val = 0.123, Max_val = 0.124, Variation = 0, DefectFactor = 1\<rparr>
            False 1 (sconst 0)) = 0.12
   \<and> fst (calculate_random_value
            \<lparr>Min_val = 0.123, Max_val = 0.124, Variation = 0, DefectFactor = 1\<rparr>
            False 1 (sconst 0))
       < max 0 (Min_val \<lparr>Min_val = 0.123, Max_val = 0.124, Variation = 0, DefectFactor = 1\<rparr>)
   \<and> Min_val \<lparr>Min_val = - 2, Max_val = - 1, Variation = 0, DefectFactor = 1\<rparr>
     \<le> Max_val \<lparr>Min_val = - 2, Max_val = - 1, Variation = 0, DefectFactor = 1\<rparr>
   \<and> fst (calculate_random_value
            \<lparr>Min_val = - 2, Max_val = - 1, Variation = 0, DefectFactor = 1\<rparr>
            False 1 (sconst 0)) = 0
   \<and> Max_val \<lparr>Min_val = - 2, Max_val = - 1, Variation = 0, DefectFactor = 1\<rparr>
       < fst (calculate_random_value
            \<lparr>Min_val = - 2, Max_val = - 1, Variation = 0, DefectFactor = 1\<rparr>
            False 1 (sconst 0))"
  by (simp add: calculate_random_value_eq random_value_normal uniform_eq random_def
      py_round_def round_half_even_def)

text \<open>
  Claim C6, amended. For a metric with \<open>Min \<le> Max\<close>, \<open>0 \<le> Max\<close> and both \<open>max(0, Min)\<close>
  and \<open>Max\<close> multiples of \<open>0.01\<close>, a sample that is not anomalous lies in
  \<open>[max(0, Min), Max]\<close> after the floor at 0 and the rounding, for every outcome of the
  draw; in particular the vibration of Press is never below 0.2 nor above 0.8.
\<close>

theorem normal_sample_in_range:
  assumes "Min_val m \<le> Max_val m" "0 \<le> Max_val m"
    "two_decimals (max 0 (Min_val m))" "two_decimals (Max_val m)"
  shows "max 0 (Min_val m) \<le> fst (calculate_random_value m False mult g)
       \<and> fst (calculate_random_value m False mult g) \<le> Max_val m
       \<and> 0.2 \<le> fst (calculate_random_value (Vibration Press) False mult' g')
       \<and> fst (calculate_random_value (Vibration Press) False mult' g') \<le> 0.8"
proof -
  have "0.2 \<le> fst (calculate_random_value (Vibration Press) False mult' g')
       \<and> fst (calculate_random_value (Vibration Press) False mult' g') \<le> 0.8"
    using normal_value_in_range [of "Vibration Press" mult' g']
    by (simp add: Press_def two_decimals_def)
  then show ?thesis using normal_value_in_range [OF assms, of mult g] by simp
qed

theorem normal_sample_in_range_witness:
  "Min_val (Speed Conveyor) \<le> Max_val (Speed Conveyor) \<and> 0 \<le> Max_val (Speed Conveyor)
   \<and> two_decimals (max 0 (Min_val (Speed Conveyor))) \<and> two_decimals (Max_val (Speed Conveyor))
   \<and> fst (calculate_random_value (Speed Conveyor) False 1 (sconst 0)) = 10
   \<and> fst (calculate_random_value (Vibration Press) False 1 (sconst 0)) = 0.2"
  using normal_sample_in_range [of "Speed Conveyor" 1 "sconst 0" 1 "sconst 0"]
  by (simp add: Conveyor_def Press_def two_decimals_def calculate_random_value_eq
      random_value_normal uniform_eq random_def py_round_def round_half_even_def)

text \<open>
  Claim C2, as the code has it. The claim is about every metric and every multiplier
  \<open>m > 0\<close>. It fails where \<open>Variation\<close> is 0, as it is for the humidity of every asset
  type: the excursion is 0 and the value is \<open>Max\<close> itself, before the clamp and after it.
  It also fails for a positive \<open>Variation\<close> when the excursion is small: for the
  vibration of Press and the multiplier 0.1 the value before rounding is 0.804, and
  the function returns 0.8, which is \<open>Max\<close>.
\<close>

theorem anomalous_value_outside_counterexample:
  "fst (random_value (Humidity Press) True 1 (sconst 0)) = 70
   \<and> fst (calculate_random_value (Humidity Press) True 1 (sconst 0)) = 70
   \<and> \<not> outside (Humidity Press) 70
   \<and> 0 < Variation (Vibration Press)
   \<and> fst (random_value (Vibration Press) True 0.1 (sconst 0)) = 0.804
   \<and> py_round (fst (random_value (Vibration Press) True 0.1 (sconst 0))) 2 = 0.8
   \<and> fst (calculate_random_value (Vibration Press) True 0.1 (sconst 0)) = 0.8
   \<and> \<not> outside (Vibration Press) 0.8"
  by (simp add: Press_def calculate_random_value_eq random_value_anomalous anomaly_variation_eq
      uniform_eq random_def choice_def outside_def py_round_def round_half_even_def)

text \<open>
  Claim C2, amended. For every metric and every multiplier \<open>m > 0\<close> for which the
  smallest possible excursion \<open>Variation * 0.5 * m\<close> is at least 0.01, one step of the
  rounding, an anomalous sample is \<open>Max + e\<close> or \<open>Min - e\<close> with \<open>e \<ge> 0.01\<close> and, leaving
  the floor at 0 aside, its rounded value is strictly outside \<open>[Min, Max]\<close>; the value
  the function returns, floor included, is strictly outside whenever 0 is not in
  \<open>[Min, Max]\<close>; and for the same draw a larger multiplier gives an excursion at least as
  large. In exact arithmetic an excursion above 0.005 would do; the bound 0.01 leaves
  the room that the rounding error of floating-point sums needs.
\<close>

theorem anomalous_value_outside:
  assumes "0 < mult" "1 / 100 \<le> Variation m * 0.5 * mult"
  shows "1 / 100 \<le> fst (anomaly_variation m mult (stl g))
       \<and> (fst (random_value m True mult g) = Max_val m + fst (anomaly_variation m mult (stl g))
          \<or> fst (random_value m True mult g) = Min_val m - fst (anomaly_variation m mult (stl g)))
       \<and> outside m (py_round (fst (random_value m True mult g)) 2)
       \<and> (0 < Min_val m \<or> Max_val m < 0 \<longrightarrow>
            outside m (fst (calculate_random_value m True mult g)))
       \<and> (mult \<le> mult' \<longrightarrow>
            fst (anomaly_variation m mult (stl g)) \<le> fst (anomaly_variation m mult' (stl g)))"
proof -
  let ?e = "fst (anomaly_variation m mult (stl g))"
  let ?v = "fst (random_value m True mult g)"
  have "0 < Variation m * mult" using assms(2) by simp
  then have V: "0 < Variation m" using assms(1) by (simp add: zero_less_mult_iff)
  have "Variation m * 0.5 * mult \<le> ?e"
    using V assms(1) by (intro anomaly_variation_lower) simp_all
  then have e: "1 / 100 \<le> ?e" using assms(2) by linarith
  have v: "?v = Max_val m + ?e \<or> ?v = Min_val m - ?e"
    by (simp add: random_value_anomalous)
  have near: "x - 1 / 200 \<le> py_round x 2 \<and> py_round x 2 \<le> x + 1 / 200" for x
    by (rule py_round2_near)
  have raw: "outside m (py_round ?v 2)"
    using v e near [of ?v] by (auto simp: outside_def)
  have ret: "outside m (fst (calculate_random_value m True mult g))"
    if "0 < Min_val m \<or> Max_val m < 0"
  proof (cases "0 \<le> ?v")
    case True
    then have "max 0 ?v = ?v" by simp
    then show ?thesis using raw by (simp add: calculate_random_value_eq)
  next
    case False
    then have "max 0 ?v = 0" by simp
    then have "fst (calculate_random_value m True mult g) = 0"
      by (simp add: calculate_random_value_eq py_round2_fix two_decimals_0)
    moreover have "0 < Min_val m \<or> Max_val m < 0"
      using that False v e by auto
    ultimately show ?thesis by (simp add: outside_def)
  qed
  have mono: "mult \<le> mult' \<longrightarrow> ?e \<le> fst (anomaly_variation m mult' (stl g))"
    using V by (auto intro: anomaly_variation_mono)
  show ?thesis using e v raw ret mono by blast
qed

theorem anomalous_value_outside_witness:
  "(0::real) < 1 \<and> 1 / 100 \<le> Variation (Vibration Press) * 0.5 * 1
   \<and> 0 < Min_val (Vibration Press) \<and> (1::real) \<le> 2
   \<and> fst (random_value (Vibration Press) True 1 (sconst 0)) = 0.84
   \<and> fst (calculate_random_value (Vibration Press) True 1 (sconst 0)) = 0.84
   \<and> outside (Vibration Press) 0.84
   \<and> fst (anomaly_variation (Vibration Press) 1 (stl (sconst 0))) = 0.04
   \<and> fst (anomaly_variation (Vibration Press) 2 (stl (sconst 0))) = 0.08"
  using anomalous_value_outside [of 1 "Vibration Press" "sconst 0" 2]
  by (simp add: Press_def calculate_random_value_eq random_value_anomalous anomaly_variation_eq
      uniform_eq random_def choice_def outside_def py_round_def round_half_even_def)


section \<open>Readings of an event\<close>

lemma coin_eq: "choice [True, False] g = (shd g mod 2 = 0, stl g)"
proof -
  have "shd g mod 2 = 0 \<or> shd g mod 2 = 1" by linarith
  then have "[True, False] ! (shd g mod 2) = (shd g mod 2 = 0)" by auto
  moreover have "length [True, False] = 2" by simp
  ultimately show ?thesis unfolding choice_def by (simp only:)
qed

lemma choice_mem: "xs \<noteq> [] \<Longrightarrow> fst (choice xs g) \<in> set xs"
  by (simp add: choice_def)

lemma anomaly_metrics_selection:
  "fst (anomaly_metrics True g) \<noteq> []
   \<and> (fst (anomaly_metrics True g) = [''humidity'']
      \<or> ''vibration'' \<in> set (fst (anomaly_metrics True g))
      \<or> ''temperature'' \<in> set (fst (anomaly_metrics True g))
      \<or> ''speed'' \<in> set (fst (anomaly_metrics True g)))"
proof -
  let ?names = "[''vibration'', ''temperature'', ''humidity'', ''speed'']"
  have "fst (choice ?names (stl (stl (stl (stl g))))) \<in> set ?names"
    by (rule choice_mem) simp
  then show ?thesis
    by (auto simp: anomaly_metrics_def coin_eq Let_def case_prod_beta)
qed

lemma anomalous_reading_outside:
  assumes "two_decimals (Min_val m)" "two_decimals (Max_val m)" "0 < Min_val m"
    "0 \<le> Variation m" "0 \<le> mult" "1 / 200 < Variation m * 0.5 * mult"
  shows "outside m (fst (calculate_random_value m True mult g))"
proof -
  let ?e = "fst (anomaly_variation m mult (stl g))"
  have "Variation m * 0.5 * mult \<le> ?e"
    using assms(4,5) by (rule anomaly_variation_lower)
  then have e: "1 / 200 < ?e" using assms(6) by linarith
  show ?thesis
  proof (cases "fst (choice [True, False] (stl (stl g)))")
    case True
    then have v: "fst (random_value m True mult g) = Max_val m + ?e"
      by (simp add: random_value_anomalous)
    have "Max_val m + 1 / 200 < max 0 (Max_val m + ?e)" using e by simp
    then have "Max_val m < py_round (max 0 (Max_val m + ?e)) 2"
      by (rule py_round2_gt [OF assms(2)])
    then show ?thesis by (simp add: outside_def calculate_random_value_eq v)
  next
    case False
    then have v: "fst (random_value m True mult g) = Min_val m - ?e"
      by (simp add: random_value_anomalous)
    have "max 0 (Min_val m - ?e) < Min_val m - 1 / 200 \<or> max 0 (Min_val m - ?e) = 0"
      using e by (simp add: max_def)
    then have "py_round (max 0 (Min_val m - ?e)) 2 < Min_val m"
    proof
      assume "max 0 (Min_val m - ?e) < Min_val m - 1 / 200"
      then show ?thesis by (rule py_round2_lt [OF assms(1)])
    next
      assume "max 0 (Min_val m - ?e) = 0"
      then show ?thesis using assms(3) by (simp add: py_round2_fix two_decimals_0)
    qed
    then show ?thesis by (simp add: outside_def calculate_random_value_eq v)
  qed
qed

lemma flat_anomaly_in_range:
  assumes "Variation m = 0" "two_decimals (Min_val m)" "two_decimals (Max_val m)"
    "0 \<le> Min_val m" "Min_val m \<le> Max_val m"
  shows "fst (anomaly_variation m mult g) = 0"
    and "fst (calculate_random_value m True mult g) = Min_val m
         \<or> fst (calculate_random_value m True mult g) = Max_val m"
proof -
  show e: "fst (anomaly_variation m mult g) = 0" for g
    using assms(1) by (simp add: anomaly_variation_eq uniform_eq)
  have "max 0 (Min_val m) = Min_val m" "max 0 (Max_val m) = Max_val m"
    using assms(4,5) by simp_all
  then show "fst (calculate_random_value m True mult g) = Min_val m
         \<or> fst (calculate_random_value m True mult g) = Max_val m"
    using assms(2,3)
    by (simp add: calculate_random_value_eq random_value_anomalous e py_round2_fix)
qed

lemma normal_reading_inside:
  assumes "Min_val m \<le> Max_val m" "0 \<le> Min_val m"
    "two_decimals (Min_val m)" "two_decimals (Max_val m)"
  shows "\<not> outside m (fst (calculate_random_value m False mult g))"
proof -
  have "max 0 (Min_val m) = Min_val m" using assms(2) by simp
  then show ?thesis
    using normal_value_in_range [of m mult g] assms by (simp add: outside_def not_less)
qed

section \<open>The two tables\<close>

lemma get_types_cases:
  "(n, t) \<in> set get_types \<Longrightarrow>
     t = Assembly \<or> t = Press \<or> t = Conveyor \<or> t = Packaging"
  unfolding get_types_def by auto

lemma catalog_humidity:
  assumes "(n, t) \<in> set get_types"
  shows "Humidity t = \<lparr>Min_val = 30, Max_val = 70, Variation = 0, DefectFactor = 15\<rparr>"
  using get_types_cases [OF assms]
  by (auto simp: Assembly_def Press_def Conveyor_def Packaging_def)


lemma dom_get_types: "dom (map_of get_types) = {''Assembly'', ''Press'', ''Conveyor'', ''Packaging''}"
  unfolding get_types_def dom_map_of_conv_image_fst by (simp add: insert_commute)

lemma ran_get_type_map: "ran (map_of get_type_map) = {''Assembly'', ''Press'', ''Conveyor'', ''Packaging''}"
proof -
  have "distinct (map fst get_type_map)" by (simp add: get_type_map_def)
  then have "ran (map_of get_type_map) = snd ` set get_type_map" by (rule ran_distinct)
  then show ?thesis by (simp add: get_type_map_def insert_commute)
qed


text \<open>
  Claim C10. The values of \<open>Asset.get_type_map()\<close> are the keys of
  \<open>AssetType.get_types()\<close>, namely Assembly, Press, Conveyor and Packaging, so the type
  that the map gives for an asset name is always a key of the table of asset types.
\<close>

theorem type_map_resolves:
  "ran (map_of get_type_map) = dom (map_of get_types)
   \<and> dom (map_of get_types) = {''Assembly'', ''Press'', ''Conveyor'', ''Packaging''}
   \<and> (\<forall>name ty. map_of get_type_map name = Some ty \<longrightarrow> (\<exists>t. map_of get_types ty = Some t))"
proof -
  have "\<exists>t. map_of get_types ty = Some t" if "map_of get_type_map name = Some ty" for name ty
  proof -
    have "ty \<in> ran (map_of get_type_map)" using that unfolding ran_def by blast
    then have "ty \<in> dom (map_of get_types)" by (simp only: ran_get_type_map dom_get_types)
    then show ?thesis unfolding dom_def by blast
  qed
  then show ?thesis using dom_get_types ran_get_type_map by (simp only:) blast
qed

theorem type_map_resolves_witness:
  "map_of get_type_map ''Automated Press'' = Some ''Press''
   \<and> map_of get_types ''Press'' = Some Press"
  using type_map_resolves by (simp add: get_type_map_def get_types_def)

lemma length_catalog_metrics: "length catalog_metrics = 16"
    by (simp add: catalog_metrics_def get_types_def)


lemma catalog_metrics_eq:
  "catalog_metrics =
     [Vibration Assembly, Temperature Assembly, Humidity Assembly, Speed Assembly,
      Vibration Press, Temperature Press, Humidity Press, Speed Press,
      Vibration Conveyor, Temperature Conveyor, Humidity Conveyor, Speed Conveyor,
      Vibration Packaging, Temperature Packaging, Humidity Packaging, Speed Packaging]"
  by (simp add: catalog_metrics_def get_types_def)

lemma catalog_metrics_all:
  "list_all (\<lambda>m. Min_val m < Max_val m \<and> 0 < DefectFactor m \<and> 0 \<le> Variation m) catalog_metrics"
  unfolding catalog_metrics_eq
  by (simp add: Assembly_def Press_def Conveyor_def Packaging_def)

lemma catalog_metrics_ball: "\<forall>m \<in> set catalog_metrics.
         Min_val m < Max_val m \<and> 0 < DefectFactor m \<and> 0 \<le> Variation m"
  using catalog_metrics_all unfolding list_all_iff .


lemma humidity_flat:
  assumes nt: "(n, t) \<in> set get_types"
  shows "Variation (Humidity t) = 0
         \<and> fst (anomaly_variation (Humidity t) mult g) = 0
              \<and> (fst (calculate_random_value (Humidity t) True mult g) = Min_val (Humidity t)
                 \<or> fst (calculate_random_value (Humidity t) True mult g) = Max_val (Humidity t))
              \<and> \<not> outside (Humidity t) (fst (calculate_random_value (Humidity t) True mult g))"
proof -
  let ?h = "Humidity t"
  have h: "Variation ?h = 0" "two_decimals (Min_val ?h)" "two_decimals (Max_val ?h)"
      "0 \<le> Min_val ?h" "Min_val ?h \<le> Max_val ?h"
    by (simp_all add: catalog_humidity [OF nt] two_decimals_def)
  have e: "fst (anomaly_variation ?h mult g) = 0"
    using h by (rule flat_anomaly_in_range(1))
  have v: "fst (calculate_random_value ?h True mult g) = Min_val ?h
         \<or> fst (calculate_random_value ?h True mult g) = Max_val ?h"
    using h by (rule flat_anomaly_in_range(2))
  have "\<not> outside ?h (fst (calculate_random_value ?h True mult g))"
    using v h(5) by (auto simp: outside_def)
  then show ?thesis using h(1) e v by simp
qed

text \<open>
  Claim C9. Each of the sixteen metrics of the table has \<open>Min < Max\<close>,
  \<open>DefectFactor > 0\<close> and \<open>Variation \<ge> 0\<close>. The humidity metric of every asset type has
  \<open>Variation = 0\<close>, so the excursion of an anomalous humidity draw is 0 and the sampled
  humidity is exactly \<open>Min\<close> or \<open>Max\<close>, never strictly outside the nominal range.
\<close>

theorem catalog_metrics_invariant:
  "length catalog_metrics = 16
   \<and> (\<forall>m \<in> set catalog_metrics.
         Min_val m < Max_val m \<and> 0 < DefectFactor m \<and> 0 \<le> Variation m)
   \<and> (\<forall>(n, t) \<in> set get_types.
         Variation (Humidity t) = 0
         \<and> (\<forall>mult g.
              fst (anomaly_variation (Humidity t) mult g) = 0
              \<and> (fst (calculate_random_value (Humidity t) True mult g) = Min_val (Humidity t)
                 \<or> fst (calculate_random_value (Humidity t) True mult g) = Max_val (Humidity t))
              \<and> \<not> outside (Humidity t) (fst (calculate_random_value (Humidity t) True mult g))))"
  using length_catalog_metrics catalog_metrics_ball humidity_flat by blast


theorem catalog_metrics_invariant_witness:
  "(''Press'', Press) \<in> set get_types
   \<and> Humidity Press \<in> set catalog_metrics
   \<and> Min_val (Humidity Press) < Max_val (Humidity Press)
   \<and> Variation (Humidity Press) = 0
   \<and> fst (anomaly_variation (Humidity Press) 1 (sconst 0)) = 0
   \<and> fst (calculate_random_value (Humidity Press) True 1 (sconst 0)) = 70
   \<and> Max_val (Humidity Press) = 70"
proof -
  have a: "(''Press'', Press) \<in> set get_types" by (simp add: get_types_def)
  have b: "Humidity Press \<in> set catalog_metrics" by (simp add: catalog_metrics_eq)
  have c: "Min_val (Humidity Press) < Max_val (Humidity Press)"
    using catalog_metrics_invariant b by blast
  have d: "Variation (Humidity Press) = 0
           \<and> fst (anomaly_variation (Humidity Press) 1 (sconst 0)) = 0"
    using catalog_metrics_invariant a by fastforce
  have e: "fst (calculate_random_value (Humidity Press) True 1 (sconst 0)) = 70"
    by (simp add: Press_def calculate_random_value_eq random_value_anomalous
        anomaly_variation_eq uniform_eq random_def choice_def py_round_def round_half_even_def)
  have f: "Max_val (Humidity Press) = 70" by (simp add: Press_def)
  show ?thesis using a b c d e f by simp
qed

section \<open>Building an event\<close>

lemma create_random_event_zero:
  assumes "DefectFactor (Vibration t) = 0 \<or> DefectFactor (Temperature t) = 0
    \<or> DefectFactor (Speed t) = 0"
  shows "fst (create_random_event t a p b ts an mult g u) = Inl ZeroDivisionError"
  by (simp add: create_random_event_def case_prod_beta cdp_zero [OF assms])

lemma create_random_event_nonzero:
  assumes "DefectFactor (Vibration t) \<noteq> 0" "DefectFactor (Temperature t) \<noteq> 0"
    "DefectFactor (Speed t) \<noteq> 0"
  shows "\<exists>ev g1 g2 g3 g4.
           fst (create_random_event t a p b ts an mult g u) = Inr ev
         \<and> Id_ev ev = str_uuid (uuid4 u)
         \<and> Vibration_ev ev = fst (calculate_random_value (Vibration t)
               (an \<and> ''vibration'' \<in> set (fst (anomaly_metrics an g))) mult g1)
         \<and> Temperature_ev ev = fst (calculate_random_value (Temperature t)
               (an \<and> ''temperature'' \<in> set (fst (anomaly_metrics an g))) mult g2)
         \<and> Humidity_ev ev = fst (calculate_random_value (Humidity t)
               (an \<and> ''humidity'' \<in> set (fst (anomaly_metrics an g))) mult g3)
         \<and> Speed_ev ev = fst (calculate_random_value (Speed t)
               (an \<and> ''speed'' \<in> set (fst (anomaly_metrics an g))) mult g4)"
  by (simp add: create_random_event_def case_prod_beta cdp_nonzero [OF assms]) blast


lemma uuid4_word_0: "uuid4 0 = 0x00000000000040008000000000000000"
  by (simp add: uuid4_def)

lemma uuid4_word_1: "uuid4 1 = 0x00000000000040008000000000000001"
  by (simp add: uuid4_def)


lemma hex_numeral:
  "hex (numeral k) n = hex (pred_numeral k) (n div 16) @ [hex_digit (n mod 16)]"
proof -
  have "hex (numeral k) n = hex (Suc (pred_numeral k)) n"
    by (simp only: numeral_eq_Suc)
  then show ?thesis by (simp only: hex.simps)
qed

lemma hex_uuid4_0: "hex 32 0x40008000000000000000 = ''00000000000040008000000000000000''"
  by (simp add: hex_numeral hex_digit_def)

lemma uuid4_0: "str_uuid (uuid4 0) = ''00000000-0000-4000-8000-000000000000''"
  by (simp add: str_uuid_def uuid4_word_0 hex_uuid4_0)

lemma hex_uuid4_1: "hex 32 0x40008000000000000001 = ''00000000000040008000000000000001''"
  by (simp add: hex_numeral hex_digit_def)

lemma uuid4_1: "str_uuid (uuid4 1) = ''00000000-0000-4000-8000-000000000001''"
  by (simp add: str_uuid_def uuid4_word_1 hex_uuid4_1)


text \<open>
  Claim C8, as the code has it. A metric with \<open>Min > Max\<close> and a zero \<open>DefectFactor\<close>
  is constructed without an error; sampling it returns a value; the zero divisor is
  met only when an event is built, as a \<open>ZeroDivisionError\<close>.
\<close>

theorem construction_unchecked_counterexample:
  "AssetMetric_init 1 0 0 0 = Inr \<lparr>Min_val = 1, Max_val = 0, Variation = 0, DefectFactor = 0\<rparr>
   \<and> Max_val \<lparr>Min_val = 1, Max_val = 0, Variation = 0, DefectFactor = 0\<rparr>
       < Min_val \<lparr>Min_val = 1, Max_val = 0, Variation = 0, DefectFactor = 0\<rparr>
   \<and> DefectFactor \<lparr>Min_val = 1, Max_val = 0, Variation = 0, DefectFactor = 0\<rparr> = 0
   \<and> fst (calculate_random_value
            \<lparr>Min_val = 1, Max_val = 0, Variation = 0, DefectFactor = 0\<rparr> False 1 (sconst 0)) = 1
   \<and> calc_defect_factor \<lparr>Min_val = 1, Max_val = 0, Variation = 0, DefectFactor = 0\<rparr> 1
       = Inl ZeroDivisionError
   \<and> fst (create_random_event
            (Press\<lparr>Vibration := \<lparr>Min_val = 1, Max_val = 0, Variation = 0, DefectFactor = 0\<rparr>\<rparr>)
            ''a'' ''p'' ''b'' 0 False 1 (sconst 0) 0) = Inl ZeroDivisionError"
proof -
  have "fst (create_random_event
            (Press\<lparr>Vibration := \<lparr>Min_val = 1, Max_val = 0, Variation = 0, DefectFactor = 0\<rparr>\<rparr>)
            ''a'' ''p'' ''b'' 0 False 1 (sconst 0) 0) = Inl ZeroDivisionError"
    by (rule create_random_event_zero) simp
  moreover have "fst (calculate_random_value
            \<lparr>Min_val = 1, Max_val = 0, Variation = 0, DefectFactor = 0\<rparr> False 1 (sconst 0)) = 1"
    by (simp add: calculate_random_value_eq random_value_normal uniform_eq random_def
        py_round_def round_half_even_def)
  ultimately show ?thesis
    by (simp add: AssetMetric_init_def calc_defect_factor_def)
qed

text \<open>
  Claim C8, amended. Constructing a metric or an asset type stores the arguments and
  never raises, whatever they are: the dataclasses validate nothing. A zero
  \<open>DefectFactor\<close> of the vibration, temperature or speed metric is first met when an event
  is built, which then raises \<open>ZeroDivisionError\<close>; with the three nonzero, building an
  event returns one. \<open>Min > Max\<close> is never detected: sampling has no error to return.
\<close>

theorem construction_unchecked:
  "AssetMetric_init mn mx v d =
     Inr \<lparr>Min_val = mn, Max_val = mx, Variation = v, DefectFactor = d\<rparr>
   \<and> AssetType_init n mv mt mh ms =
     Inr \<lparr>Name = n, Vibration = mv, Temperature = mt, Humidity = mh, Speed = ms\<rparr>
   \<and> (DefectFactor (Vibration t) = 0 \<or> DefectFactor (Temperature t) = 0
        \<or> DefectFactor (Speed t) = 0 \<longrightarrow>
       fst (create_random_event t a p b ts an mult g u) = Inl ZeroDivisionError)
   \<and> (DefectFactor (Vibration t) \<noteq> 0 \<and> DefectFactor (Temperature t) \<noteq> 0
        \<and> DefectFactor (Speed t) \<noteq> 0 \<longrightarrow>
       (\<exists>ev. fst (create_random_event t a p b ts an mult g u) = Inr ev))"
proof (intro conjI impI)
  show "AssetMetric_init mn mx v d =
     Inr \<lparr>Min_val = mn, Max_val = mx, Variation = v, DefectFactor = d\<rparr>"
    by (simp add: AssetMetric_init_def)
  show "AssetType_init n mv mt mh ms =
     Inr \<lparr>Name = n, Vibration = mv, Temperature = mt, Humidity = mh, Speed = ms\<rparr>"
    by (simp add: AssetType_init_def)
next
  assume "DefectFactor (Vibration t) = 0 \<or> DefectFactor (Temperature t) = 0
        \<or> DefectFactor (Speed t) = 0"
  then show "fst (create_random_event t a p b ts an mult g u) = Inl ZeroDivisionError"
    by (rule create_random_event_zero)
next
  assume "DefectFactor (Vibration t) \<noteq> 0 \<and> DefectFactor (Temperature t) \<noteq> 0
        \<and> DefectFactor (Speed t) \<noteq> 0"
  then show "\<exists>ev. fst (create_random_event t a p b ts an mult g u) = Inr ev"
    using create_random_event_nonzero [of t a p b ts an mult g u] by blast
qed

theorem construction_unchecked_witness:
  "DefectFactor (Vibration (Press\<lparr>Vibration := \<lparr>Min_val = 1, Max_val = 0, Variation = 0,
       DefectFactor = 0\<rparr>\<rparr>)) = 0
   \<and> fst (create_random_event
            (Press\<lparr>Vibration := \<lparr>Min_val = 1, Max_val = 0, Variation = 0, DefectFactor = 0\<rparr>\<rparr>)
            ''a'' ''p'' ''b'' 0 False 1 (sconst 0) 0) = Inl ZeroDivisionError
   \<and> DefectFactor (Vibration Press) \<noteq> 0 \<and> DefectFactor (Temperature Press) \<noteq> 0
   \<and> DefectFactor (Speed Press) \<noteq> 0
   \<and> (\<exists>ev. fst (create_random_event Press ''a'' ''p'' ''b'' 0 False 1 (sconst 0) 0) = Inr ev)"
proof -
  have nz: "DefectFactor (Vibration Press) \<noteq> 0 \<and> DefectFactor (Temperature Press) \<noteq> 0
   \<and> DefectFactor (Speed Press) \<noteq> 0" by (simp add: Press_def)
  have "\<exists>ev. fst (create_random_event Press ''a'' ''p'' ''b'' 0 False 1 (sconst 0) 0) = Inr ev"
    using construction_unchecked [of _ _ _ _ _ _ _ _ _ Press "''a''" "''p''" "''b''" 0 False 1 "sconst 0" 0] nz
    by blast
  moreover have "fst (create_random_event
            (Press\<lparr>Vibration := \<lparr>Min_val = 1, Max_val = 0, Variation = 0, DefectFactor = 0\<rparr>\<rparr>)
            ''a'' ''p'' ''b'' 0 False 1 (sconst 0) 0) = Inl ZeroDivisionError"
    using construction_unchecked [of _ _ _ _ _ _ _ _ _
        "Press\<lparr>Vibration := \<lparr>Min_val = 1, Max_val = 0, Variation = 0, DefectFactor = 0\<rparr>\<rparr>"
        "''a''" "''p''" "''b''" 0 False 1 "sconst 0" 0]
    by simp
  ultimately show ?thesis using nz by simp
qed



text \<open>
  Claim C3, as the code has it. From the same state of the random source and with the
  same arguments, two calls return events with different \<open>Id\<close>s when \<open>os.urandom\<close>
  delivers different bytes: the \<open>Id\<close> is \<open>str(uuid.uuid4())\<close>, which the \<open>random\<close> module
  does not determine.
\<close>

theorem event_deterministic_but_id_counterexample:
  "map_sum id Id_ev (fst (create_random_event Press ''a'' ''p'' ''b'' 0 False 1 (sconst 0) 0))
     = Inr ''00000000-0000-4000-8000-000000000000''
   \<and> map_sum id Id_ev (fst (create_random_event Press ''a'' ''p'' ''b'' 0 False 1 (sconst 0) 1))
     = Inr ''00000000-0000-4000-8000-000000000001''
   \<and> fst (create_random_event Press ''a'' ''p'' ''b'' 0 False 1 (sconst 0) 0)
     \<noteq> fst (create_random_event Press ''a'' ''p'' ''b'' 0 False 1 (sconst 0) 1)"
proof -
  have nz: "DefectFactor (Vibration Press) \<noteq> 0" "DefectFactor (Temperature Press) \<noteq> 0"
    "DefectFactor (Speed Press) \<noteq> 0" by (simp_all add: Press_def)
  obtain e0 where e0: "fst (create_random_event Press ''a'' ''p'' ''b'' 0 False 1 (sconst 0) 0) = Inr e0"
    "Id_ev e0 = str_uuid (uuid4 0)"
    using create_random_event_nonzero [OF nz, of "''a''" "''p''" "''b''" 0 False 1 "sconst 0" 0]
    by blast
  obtain e1 where e1: "fst (create_random_event Press ''a'' ''p'' ''b'' 0 False 1 (sconst 0) 1) = Inr e1"
    "Id_ev e1 = str_uuid (uuid4 1)"
    using create_random_event_nonzero [OF nz, of "''a''" "''p''" "''b''" 0 False 1 "sconst 0" 1]
    by blast
  have "e0 \<noteq> e1" using e0(2) e1(2) by (auto simp: uuid4_0 uuid4_1)
  then show ?thesis by (simp add: e0 e1 uuid4_0 uuid4_1)
qed


subsection \<open>What a call reads of the random source\<close>

lemma length_hex: "length (hex k n) = k"
  by (induction k arbitrary: n) simp_all

lemma hex_digit_inj:
  assumes "d < 16" "d' < 16" "hex_digit d = hex_digit d'"
  shows "d = d'"
proof -
  have "distinct ''0123456789abcdef''" by simp
  moreover have "d < length ''0123456789abcdef''" "d' < length ''0123456789abcdef''"
    using assms(1,2) by simp_all
  ultimately show ?thesis
    using assms(3) unfolding hex_digit_def by (simp only: nth_eq_iff_index_eq)
qed

lemma hex_inj: "hex k n = hex k n' \<Longrightarrow> n mod 16 ^ k = n' mod 16 ^ k"
proof (induction k arbitrary: n n')
  case 0
  then show ?case by simp
next
  case (Suc k)
  from Suc.prems have a: "hex k (n div 16) = hex k (n' div 16)"
    and b: "hex_digit (n mod 16) = hex_digit (n' mod 16)"
    by (simp_all add: length_hex)
  have d: "n mod 16 = n' mod 16"
    using b by (intro hex_digit_inj) simp_all
  have "(n div 16) mod 16 ^ k = (n' div 16) mod 16 ^ k"
    using a by (rule Suc.IH)
  then show ?case using d by (simp add: mod_mult2_eq)
qed

lemma dashed_pieces:
  "take 8 h @ take 4 (drop 8 h) @ take 4 (drop 12 h) @ take 4 (drop 16 h) @ drop 20 h = h"
proof -
  have a: "take 4 (drop 16 h) @ drop 20 h = drop 16 h"
    using append_take_drop_id [of 4 "drop 16 h"] by simp
  have b: "take 4 (drop 12 h) @ drop 16 h = drop 12 h"
    using append_take_drop_id [of 4 "drop 12 h"] by simp
  have c: "take 4 (drop 8 h) @ drop 12 h = drop 8 h"
    using append_take_drop_id [of 4 "drop 8 h"] by simp
  show ?thesis by (simp only: a b c append_take_drop_id)
qed

lemma dashed_inj:
  assumes "length h = 32" "length h' = 32"
    "take 8 h @ ''-'' @ take 4 (drop 8 h) @ ''-'' @ take 4 (drop 12 h) @ ''-''
         @ take 4 (drop 16 h) @ ''-'' @ drop 20 h
     = take 8 h' @ ''-'' @ take 4 (drop 8 h') @ ''-'' @ take 4 (drop 12 h') @ ''-''
         @ take 4 (drop 16 h') @ ''-'' @ drop 20 h'"
  shows "h = h'"
proof -
  have "take 8 h = take 8 h' \<and> take 4 (drop 8 h) = take 4 (drop 8 h')
      \<and> take 4 (drop 12 h) = take 4 (drop 12 h') \<and> take 4 (drop 16 h) = take 4 (drop 16 h')
      \<and> drop 20 h = drop 20 h'"
    using assms by simp
  then show ?thesis
    using dashed_pieces [of h] dashed_pieces [of h'] by metis
qed

lemma str_uuid_inj:
  assumes "str_uuid u = str_uuid u'"
  shows "u = u'"
proof -
  have "hex 32 (unat u) = hex 32 (unat u')"
  proof (rule dashed_inj)
    show "length (hex 32 (unat u)) = 32" "length (hex 32 (unat u')) = 32"
      by (simp_all only: length_hex)
    show "take 8 (hex 32 (unat u)) @ ''-'' @ take 4 (drop 8 (hex 32 (unat u))) @ ''-''
         @ take 4 (drop 12 (hex 32 (unat u))) @ ''-''
         @ take 4 (drop 16 (hex 32 (unat u))) @ ''-'' @ drop 20 (hex 32 (unat u))
     = take 8 (hex 32 (unat u')) @ ''-'' @ take 4 (drop 8 (hex 32 (unat u'))) @ ''-''
         @ take 4 (drop 12 (hex 32 (unat u'))) @ ''-''
         @ take 4 (drop 16 (hex 32 (unat u'))) @ ''-'' @ drop 20 (hex 32 (unat u'))"
      using assms unfolding str_uuid_def Let_def .
  qed
  then have "unat u mod 16 ^ 32 = unat u' mod 16 ^ 32" by (rule hex_inj)
  moreover have "unat u < 16 ^ 32" "unat u' < 16 ^ 32"
    using unsigned_less [of u] unsigned_less [of u'] by simp_all
  ultimately have "unat u = unat u'" by (simp only: mod_less)
  then show ?thesis by (simp only: word_unat_eq_iff)
qed

lemma stake_le:
  assumes "stake n g = stake n g'" "m \<le> n"
  shows "stake m g = stake m g'"
proof -
  have "take m (stake n g) = take m (stake n g')" using assms(1) by simp
  then show ?thesis using assms(2) by (simp add: take_stake min_def)
qed

lemma stake_sdrop_eq:
  assumes "stake (n + m) g = stake (n + m) g'" "k \<le> n"
  shows "stake m (sdrop k g) = stake m (sdrop k g')"
proof -
  have "k + m \<le> n + m" using assms(2) by simp
  with assms(1) have "stake (k + m) g = stake (k + m) g'" by (rule stake_le)
  then have "drop k (stake (k + m) g) = drop k (stake (k + m) g')" by simp
  then show ?thesis by (simp add: drop_stake)
qed

lemma readsI:
  assumes "\<And>g g'. stake n g = stake n g' \<Longrightarrow>
     fst (f g) = fst (f g') \<and> (\<exists>k\<le>n. snd (f g) = sdrop k g \<and> snd (f g') = sdrop k g')"
  shows "reads n f"
  unfolding reads_def using assms by blast

lemma readsD:
  assumes "reads n f" "stake n g = stake n g'"
  obtains k where "k \<le> n" "fst (f g) = fst (f g')"
    "snd (f g) = sdrop k g" "snd (f g') = sdrop k g'"
  using assms unfolding reads_def by blast

lemma reads_mono:
  assumes "reads n f" "n \<le> m"
  shows "reads m f"
proof (rule readsI)
  fix g g' :: rng
  assume "stake m g = stake m g'"
  then have "stake n g = stake n g'" using assms(2) by (rule stake_le)
  with assms(1) obtain k where k: "k \<le> n" "fst (f g) = fst (f g')"
    "snd (f g) = sdrop k g" "snd (f g') = sdrop k g'"
    by (rule readsD)
  have "k \<le> m" using k(1) assms(2) by simp
  then show "fst (f g) = fst (f g') \<and> (\<exists>k\<le>m. snd (f g) = sdrop k g \<and> snd (f g') = sdrop k g')"
    using k(2,3,4) by blast
qed

lemma reads_return: "reads 0 (\<lambda>g. (x, g))"
  by (rule readsI) simp

lemma reads_bind:
  assumes f: "reads n f" and h: "\<And>x. reads m (h x)"
  shows "reads (n + m) (\<lambda>g. case f g of (x, g1) \<Rightarrow> h x g1)"
proof (rule readsI)
  fix g g' :: rng
  assume eq: "stake (n + m) g = stake (n + m) g'"
  then have "stake n g = stake n g'" by (rule stake_le) simp
  with f obtain k where k: "k \<le> n" "fst (f g) = fst (f g')"
    "snd (f g) = sdrop k g" "snd (f g') = sdrop k g'"
    by (rule readsD)
  let ?x = "fst (f g)"
  have "stake m (sdrop k g) = stake m (sdrop k g')"
    using eq k(1) by (rule stake_sdrop_eq)
  with h [of ?x] obtain j where j: "j \<le> m"
    "fst (h ?x (sdrop k g)) = fst (h ?x (sdrop k g'))"
    "snd (h ?x (sdrop k g)) = sdrop j (sdrop k g)"
    "snd (h ?x (sdrop k g')) = sdrop j (sdrop k g')"
    by (rule readsD)
  have a: "(case f g of (x, g1) \<Rightarrow> h x g1) = h ?x (sdrop k g)"
    by (simp add: case_prod_beta k(3))
  have b: "(case f g' of (x, g1) \<Rightarrow> h x g1) = h ?x (sdrop k g')"
    by (simp add: case_prod_beta k(2) [symmetric] k(4))
  have le: "k + j \<le> n + m" using k(1) j(1) by simp
  have c: "snd (h ?x (sdrop k g)) = sdrop (k + j) g"
    "snd (h ?x (sdrop k g')) = sdrop (k + j) g'"
    using j(3,4) by simp_all
  show "fst (case f g of (x, g1) \<Rightarrow> h x g1) = fst (case f g' of (x, g1) \<Rightarrow> h x g1)
      \<and> (\<exists>i\<le>n + m. snd (case f g of (x, g1) \<Rightarrow> h x g1) = sdrop i g
                    \<and> snd (case f g' of (x, g1) \<Rightarrow> h x g1) = sdrop i g')"
    unfolding a b using j(2) c le by blast
qed

lemma reads_one:
  assumes "\<And>g. f g = (F (shd g), stl g)"
  shows "reads 1 f"
proof (rule readsI)
  fix g g' :: rng
  assume "stake 1 g = stake 1 g'"
  then have "shd g = shd g'" by simp
  then have "fst (f g) = fst (f g')" by (simp add: assms)
  moreover have "snd (f g) = sdrop 1 g \<and> snd (f g') = sdrop 1 g'" by (simp add: assms)
  ultimately show "fst (f g) = fst (f g')
      \<and> (\<exists>k\<le>1. snd (f g) = sdrop k g \<and> snd (f g') = sdrop k g')"
    by blast
qed

lemma reads_uniform: "reads 1 (uniform a b)"
  by (rule reads_one [where F = "\<lambda>n. a + (b - a) * (real (n mod 2 ^ 53) / 2 ^ 53)"])
    (simp add: uniform_def random_def)

lemma reads_choice: "reads 1 (choice xs)"
  by (rule reads_one [where F = "\<lambda>n. xs ! (n mod length xs)"]) (simp add: choice_def)

lemma reads_anomaly_variation: "reads 1 (anomaly_variation m mult)"
  by (rule reads_one [where F = "\<lambda>n. (Variation m * 0.5
        + (Variation m * 1.5 - Variation m * 0.5) * (real (n mod 2 ^ 53) / 2 ^ 53)) * mult"])
    (simp add: anomaly_variation_def uniform_def random_def)

lemma reads_random_value: "reads 3 (random_value m an mult)"
proof (cases an)
  case True
  have "reads (1 + (1 + (1 + 0)))
          (\<lambda>g. case uniform (Min_val m) (Max_val m) g of (val, g1) \<Rightarrow>
                case anomaly_variation m mult g1 of (av, g2) \<Rightarrow>
                case choice [True, False] g2 of (c, g3) \<Rightarrow>
                  (if c then Max_val m + av else Min_val m - av, g3))"
    by (rule reads_bind [OF reads_uniform], rule reads_bind [OF reads_anomaly_variation],
        rule reads_bind [OF reads_choice], rule reads_return)
  then have "reads 3
          (\<lambda>g. case uniform (Min_val m) (Max_val m) g of (val, g1) \<Rightarrow>
                case anomaly_variation m mult g1 of (av, g2) \<Rightarrow>
                case choice [True, False] g2 of (c, g3) \<Rightarrow>
                  (if c then Max_val m + av else Min_val m - av, g3))"
    by (rule reads_mono) simp
  moreover have "random_value m an mult =
          (\<lambda>g. case uniform (Min_val m) (Max_val m) g of (val, g1) \<Rightarrow>
                case anomaly_variation m mult g1 of (av, g2) \<Rightarrow>
                case choice [True, False] g2 of (c, g3) \<Rightarrow>
                  (if c then Max_val m + av else Min_val m - av, g3))"
    using True by (simp add: random_value_def fun_eq_iff split: prod.splits)
  ultimately show ?thesis by (simp only:)
next
  case False
  have "reads (1 + 0) (\<lambda>g. case uniform (Min_val m) (Max_val m) g of (val, g1) \<Rightarrow> (val, g1))"
    by (rule reads_bind [OF reads_uniform], rule reads_return)
  then have "reads 3 (\<lambda>g. case uniform (Min_val m) (Max_val m) g of (val, g1) \<Rightarrow> (val, g1))"
    by (rule reads_mono) simp
  moreover have "random_value m an mult =
      (\<lambda>g. case uniform (Min_val m) (Max_val m) g of (val, g1) \<Rightarrow> (val, g1))"
    using False by (simp add: random_value_def fun_eq_iff split: prod.splits)
  ultimately show ?thesis by (simp only:)
qed

lemma reads_calculate_random_value: "reads 3 (calculate_random_value m an mult)"
proof -
  have "reads (3 + 0)
      (\<lambda>g. case random_value m an mult g of (val, g') \<Rightarrow> (py_round (max 0 val) 2, g'))"
    by (rule reads_bind [OF reads_random_value], rule reads_return)
  then have "reads 3
      (\<lambda>g. case random_value m an mult g of (val, g') \<Rightarrow> (py_round (max 0 val) 2, g'))"
    by simp
  moreover have "calculate_random_value m an mult =
      (\<lambda>g. case random_value m an mult g of (val, g') \<Rightarrow> (py_round (max 0 val) 2, g'))"
    by (simp add: calculate_random_value_def fun_eq_iff)
  ultimately show ?thesis by (simp only:)
qed

lemma reads_anomaly_metrics: "reads 5 (anomaly_metrics an)"
proof (cases an)
  case True
  define sel where "sel c1 c2 c3 c4 =
      (if c1 then [''vibration''] else []) @ (if c2 then [''temperature''] else [])
      @ (if c3 then [''humidity''] else []) @ (if c4 then [''speed''] else [])"
    for c1 c2 c3 c4 :: bool
  have last: "reads 1 (\<lambda>g4. if sel c1 c2 c3 c4 = []
        then (case choice [''vibration'', ''temperature'', ''humidity'', ''speed''] g4 of
                (x, g5) \<Rightarrow> ([x], g5))
        else (sel c1 c2 c3 c4, g4))" for c1 c2 c3 c4
  proof (cases "sel c1 c2 c3 c4 = []")
    case True
    have "reads (1 + 0)
        (\<lambda>g4. case choice [''vibration'', ''temperature'', ''humidity'', ''speed''] g4 of
                (x, g5) \<Rightarrow> ([x], g5))"
      by (rule reads_bind [OF reads_choice], rule reads_return)
    then show ?thesis using True by simp
  next
    case False
    have "reads 0 (\<lambda>g4. (sel c1 c2 c3 c4, g4))" by (rule reads_return)
    then have "reads 1 (\<lambda>g4. (sel c1 c2 c3 c4, g4))" by (rule reads_mono) simp
    then show ?thesis using False by simp
  qed
  have "reads (1 + (1 + (1 + (1 + 1))))
      (\<lambda>g. case choice [True, False] g of (c1, g1) \<Rightarrow>
            case choice [True, False] g1 of (c2, g2) \<Rightarrow>
            case choice [True, False] g2 of (c3, g3) \<Rightarrow>
            case choice [True, False] g3 of (c4, g4) \<Rightarrow>
              if sel c1 c2 c3 c4 = []
              then (case choice [''vibration'', ''temperature'', ''humidity'', ''speed''] g4 of
                      (x, g5) \<Rightarrow> ([x], g5))
              else (sel c1 c2 c3 c4, g4))"
    by (rule reads_bind [OF reads_choice], rule reads_bind [OF reads_choice],
        rule reads_bind [OF reads_choice], rule reads_bind [OF reads_choice], rule last)
  then have "reads 5
      (\<lambda>g. case choice [True, False] g of (c1, g1) \<Rightarrow>
            case choice [True, False] g1 of (c2, g2) \<Rightarrow>
            case choice [True, False] g2 of (c3, g3) \<Rightarrow>
            case choice [True, False] g3 of (c4, g4) \<Rightarrow>
              if sel c1 c2 c3 c4 = []
              then (case choice [''vibration'', ''temperature'', ''humidity'', ''speed''] g4 of
                      (x, g5) \<Rightarrow> ([x], g5))
              else (sel c1 c2 c3 c4, g4))"
    by (rule reads_mono) simp
  moreover have "anomaly_metrics an =
      (\<lambda>g. case choice [True, False] g of (c1, g1) \<Rightarrow>
            case choice [True, False] g1 of (c2, g2) \<Rightarrow>
            case choice [True, False] g2 of (c3, g3) \<Rightarrow>
            case choice [True, False] g3 of (c4, g4) \<Rightarrow>
              if sel c1 c2 c3 c4 = []
              then (case choice [''vibration'', ''temperature'', ''humidity'', ''speed''] g4 of
                      (x, g5) \<Rightarrow> ([x], g5))
              else (sel c1 c2 c3 c4, g4))"
    using True unfolding anomaly_metrics_def Let_def sel_def fun_eq_iff by simp
  ultimately show ?thesis by (simp only:)
next
  case False
  have "reads 0 (\<lambda>g. ([] :: string list, g))" by (rule reads_return)
  then have "reads 5 (\<lambda>g. ([] :: string list, g))" by (rule reads_mono) simp
  moreover have "anomaly_metrics an = (\<lambda>g. ([], g))"
    using False by (simp add: anomaly_metrics_def fun_eq_iff)
  ultimately show ?thesis by (simp only:)
qed

lemma reads_calculate_defect_probability:
  "reads 1 (calculate_defect_probability t v te s)"
proof (cases "DefectFactor (Vibration t) = 0 \<or> DefectFactor (Temperature t) = 0
    \<or> DefectFactor (Speed t) = 0")
  case True
  have "reads 0 (\<lambda>g. (Inl ZeroDivisionError :: error + real, g))" by (rule reads_return)
  then have "reads 1 (\<lambda>g. (Inl ZeroDivisionError :: error + real, g))"
    by (rule reads_mono) simp
  moreover have "calculate_defect_probability t v te s = (\<lambda>g. (Inl ZeroDivisionError, g))"
    using cdp_zero [OF True] by (simp add: fun_eq_iff)
  ultimately show ?thesis by (simp only:)
next
  case False
  then have nz: "DefectFactor (Vibration t) \<noteq> 0" "DefectFactor (Temperature t) \<noteq> 0"
    "DefectFactor (Speed t) \<noteq> 0" by simp_all
  show ?thesis
    by (rule reads_one [where F = "\<lambda>n. Inr (spec_defect_probability t v te s
          (0.8 + (1.2 - 0.8) * (real (n mod 2 ^ 53) / 2 ^ 53)))"])
      (simp add: cdp_nonzero [OF nz] uniform_eq random_def)
qed

lemma reads_create_random_event:
  "reads 18 (\<lambda>g. create_random_event t a p b ts an mult g u)"
proof -
  have "reads (5 + (3 + (3 + (3 + (3 + (1 + 0))))))
     (\<lambda>g. case anomaly_metrics an g of (ms, g0) \<Rightarrow>
      case calculate_random_value (Vibration t)
             (an \<and> ''vibration'' \<in> set ms) mult g0 of (vibration, g1) \<Rightarrow>
      case calculate_random_value (Temperature t)
             (an \<and> ''temperature'' \<in> set ms) mult g1 of (temperature, g2) \<Rightarrow>
      case calculate_random_value (Humidity t)
             (an \<and> ''humidity'' \<in> set ms) mult g2 of (humidity, g3) \<Rightarrow>
      case calculate_random_value (Speed t)
             (an \<and> ''speed'' \<in> set ms) mult g3 of (speed, g4) \<Rightarrow>
      case calculate_defect_probability t vibration temperature speed g4 of (r, g5) \<Rightarrow>
        (case r of Inl e \<Rightarrow> Inl e
         | Inr defect_probability \<Rightarrow>
             Inr \<lparr>Id_ev = str_uuid (uuid4 u), AssetId = a, ProductId = p, BatchId = b,
                  Vibration_ev = vibration, Temperature_ev = temperature,
                  Humidity_ev = humidity, Speed_ev = speed,
                  DefectProbability = defect_probability, Timestamp = ts\<rparr>, g5))"
    by (rule reads_bind [OF reads_anomaly_metrics],
        rule reads_bind [OF reads_calculate_random_value],
        rule reads_bind [OF reads_calculate_random_value],
        rule reads_bind [OF reads_calculate_random_value],
        rule reads_bind [OF reads_calculate_random_value],
        rule reads_bind [OF reads_calculate_defect_probability],
        rule reads_return)
  then have "reads 18
     (\<lambda>g. case anomaly_metrics an g of (ms, g0) \<Rightarrow>
      case calculate_random_value (Vibration t)
             (an \<and> ''vibration'' \<in> set ms) mult g0 of (vibration, g1) \<Rightarrow>
      case calculate_random_value (Temperature t)
             (an \<and> ''temperature'' \<in> set ms) mult g1 of (temperature, g2) \<Rightarrow>
      case calculate_random_value (Humidity t)
             (an \<and> ''humidity'' \<in> set ms) mult g2 of (humidity, g3) \<Rightarrow>
      case calculate_random_value (Speed t)
             (an \<and> ''speed'' \<in> set ms) mult g3 of (speed, g4) \<Rightarrow>
      case calculate_defect_probability t vibration temperature speed g4 of (r, g5) \<Rightarrow>
        (case r of Inl e \<Rightarrow> Inl e
         | Inr defect_probability \<Rightarrow>
             Inr \<lparr>Id_ev = str_uuid (uuid4 u), AssetId = a, ProductId = p, BatchId = b,
                  Vibration_ev = vibration, Temperature_ev = temperature,
                  Humidity_ev = humidity, Speed_ev = speed,
                  DefectProbability = defect_probability, Timestamp = ts\<rparr>, g5))"
    by (rule reads_mono) simp
  moreover have "(\<lambda>g. create_random_event t a p b ts an mult g u) =
     (\<lambda>g. case anomaly_metrics an g of (ms, g0) \<Rightarrow>
      case calculate_random_value (Vibration t)
             (an \<and> ''vibration'' \<in> set ms) mult g0 of (vibration, g1) \<Rightarrow>
      case calculate_random_value (Temperature t)
             (an \<and> ''temperature'' \<in> set ms) mult g1 of (temperature, g2) \<Rightarrow>
      case calculate_random_value (Humidity t)
             (an \<and> ''humidity'' \<in> set ms) mult g2 of (humidity, g3) \<Rightarrow>
      case calculate_random_value (Speed t)
             (an \<and> ''speed'' \<in> set ms) mult g3 of (speed, g4) \<Rightarrow>
      case calculate_defect_probability t vibration temperature speed g4 of (r, g5) \<Rightarrow>
        (case r of Inl e \<Rightarrow> Inl e
         | Inr defect_probability \<Rightarrow>
             Inr \<lparr>Id_ev = str_uuid (uuid4 u), AssetId = a, ProductId = p, BatchId = b,
                  Vibration_ev = vibration, Temperature_ev = temperature,
                  Humidity_ev = humidity, Speed_ev = speed,
                  DefectProbability = defect_probability, Timestamp = ts\<rparr>, g5))"
    by (simp add: create_random_event_def fun_eq_iff split: prod.splits sum.splits)
  ultimately show ?thesis by (simp only:)
qed

lemma create_random_event_urandom:
  "create_random_event t a p b ts an mult g u =
     (map_sum id (\<lambda>e. e\<lparr>Id_ev := str_uuid (uuid4 u)\<rparr>)
        (fst (create_random_event t a p b ts an mult g 0)),
      snd (create_random_event t a p b ts an mult g 0))"
  by (simp add: create_random_event_def case_prod_beta split: sum.splits)

lemma create_random_event_id:
  assumes "fst (create_random_event t a p b ts an mult g u) = Inr e"
  shows "Id_ev e = str_uuid (uuid4 u)"
proof -
  have "fst (create_random_event t a p b ts an mult g u)
      = map_sum id (\<lambda>e. e\<lparr>Id_ev := str_uuid (uuid4 u)\<rparr>)
          (fst (create_random_event t a p b ts an mult g 0))"
    by (subst create_random_event_urandom) simp
  with assms show ?thesis
    by (cases "fst (create_random_event t a p b ts an mult g 0)") auto
qed


text \<open>
  Claim C3, amended. A call of \<open>create_random_event\<close> reads at most the next 18
  outcomes of the random source. Two calls with the same arguments, from the same state
  of the source or from two states that agree on those 18 outcomes, return events that
  agree in every field but \<open>Id\<close> (or raise the same error), and a call advances the
  source by a number of outcomes that the bytes of \<open>os.urandom\<close> do not change. The two
  \<open>Id\<close>s are equal exactly when the version-4 UUIDs made of the bytes that \<open>os.urandom\<close>
  delivers to the two calls are equal: the \<open>Id\<close> is settled by those bytes alone.
\<close>

theorem event_deterministic_but_id:
  "(stake 18 g = stake 18 g' \<longrightarrow>
      map_sum id (\<lambda>e. e\<lparr>Id_ev := ''''\<rparr>) (fst (create_random_event t a p b ts an mult g u))
      = map_sum id (\<lambda>e. e\<lparr>Id_ev := ''''\<rparr>) (fst (create_random_event t a p b ts an mult g' u')))
   \<and> (\<exists>k\<le>18. snd (create_random_event t a p b ts an mult g u) = sdrop k g
            \<and> snd (create_random_event t a p b ts an mult g u') = sdrop k g)
   \<and> (\<forall>e e'. fst (create_random_event t a p b ts an mult g u) = Inr e
            \<and> fst (create_random_event t a p b ts an mult g' u') = Inr e'
          \<longrightarrow> (Id_ev e = Id_ev e') = (uuid4 u = uuid4 u'))"
proof (intro conjI impI allI)
  let ?c = "\<lambda>g u. create_random_event t a p b ts an mult g u"
  have erase: "map_sum id (\<lambda>e. e\<lparr>Id_ev := ''''\<rparr>) (fst (?c g u))
      = map_sum id (\<lambda>e. e\<lparr>Id_ev := ''''\<rparr>) (fst (?c g 0))" for g u
    by (subst create_random_event_urandom)
      (cases "fst (create_random_event t a p b ts an mult g 0)"; simp)
  {
    assume "stake 18 g = stake 18 g'"
    with reads_create_random_event [of t a p b ts an mult 0]
    have "fst (?c g 0) = fst (?c g' 0)" by (rule readsD)
    then show "map_sum id (\<lambda>e. e\<lparr>Id_ev := ''''\<rparr>) (fst (?c g u))
      = map_sum id (\<lambda>e. e\<lparr>Id_ev := ''''\<rparr>) (fst (?c g' u'))"
      by (simp only: erase [of g u] erase [of g' u'])
  }
  have "stake 18 g = stake 18 g" by simp
  with reads_create_random_event [of t a p b ts an mult 0]
  obtain k where "k \<le> 18" "snd (?c g 0) = sdrop k g" by (rule readsD)
  moreover have "snd (?c g u) = snd (?c g 0)" for u
    by (subst create_random_event_urandom) simp
  ultimately show "\<exists>k\<le>18. snd (?c g u) = sdrop k g \<and> snd (?c g u') = sdrop k g"
    by auto
next
  fix e e'
  assume "fst (create_random_event t a p b ts an mult g u) = Inr e
            \<and> fst (create_random_event t a p b ts an mult g' u') = Inr e'"
  then have "Id_ev e = str_uuid (uuid4 u)" "Id_ev e' = str_uuid (uuid4 u')"
    by (auto dest: create_random_event_id)
  then show "(Id_ev e = Id_ev e') = (uuid4 u = uuid4 u')"
    using str_uuid_inj [of "uuid4 u" "uuid4 u'"] by auto
qed

theorem event_deterministic_but_id_witness:
  "stake 18 (sconst 0 :: rng) = stake 18 (sconst 0)
   \<and> map_sum id (\<lambda>e. e\<lparr>Id_ev := ''''\<rparr>)
        (fst (create_random_event Press ''a'' ''p'' ''b'' 0 False 1 (sconst 0) 0))
     = map_sum id (\<lambda>e. e\<lparr>Id_ev := ''''\<rparr>)
        (fst (create_random_event Press ''a'' ''p'' ''b'' 0 False 1 (sconst 0) 1))
   \<and> map_sum id Id_ev (fst (create_random_event Press ''a'' ''p'' ''b'' 0 False 1 (sconst 0) 0))
     = Inr ''00000000-0000-4000-8000-000000000000''
   \<and> map_sum id Id_ev (fst (create_random_event Press ''a'' ''p'' ''b'' 0 False 1 (sconst 0) 1))
     = Inr ''00000000-0000-4000-8000-000000000001''
   \<and> uuid4 (0 :: 128 word) \<noteq> uuid4 1"
proof -
  note inst = event_deterministic_but_id [of "sconst 0" "sconst 0" Press "''a''" "''p''" "''b''" 0 False 1 0 1]
  have nz: "DefectFactor (Vibration Press) \<noteq> 0" "DefectFactor (Temperature Press) \<noteq> 0"
    "DefectFactor (Speed Press) \<noteq> 0" by (simp_all add: Press_def)
  obtain e0 where e0: "fst (create_random_event Press ''a'' ''p'' ''b'' 0 False 1 (sconst 0) 0) = Inr e0"
    "Id_ev e0 = str_uuid (uuid4 0)"
    using create_random_event_nonzero [OF nz, of "''a''" "''p''" "''b''" 0 False 1 "sconst 0" 0]
    by blast
  obtain e1 where e1: "fst (create_random_event Press ''a'' ''p'' ''b'' 0 False 1 (sconst 0) 1) = Inr e1"
    "Id_ev e1 = str_uuid (uuid4 1)"
    using create_random_event_nonzero [OF nz, of "''a''" "''p''" "''b''" 0 False 1 "sconst 0" 1]
    by blast
  have "Id_ev e0 \<noteq> Id_ev e1" by (simp add: e0(2) e1(2) uuid4_0 uuid4_1)
  moreover have "(Id_ev e0 = Id_ev e1) = (uuid4 (0 :: 128 word) = uuid4 1)"
    using inst e0(1) e1(1) by blast
  ultimately have ne: "uuid4 (0 :: 128 word) \<noteq> uuid4 1" by simp
  have er: "map_sum id (\<lambda>e. e\<lparr>Id_ev := ''''\<rparr>)
        (fst (create_random_event Press ''a'' ''p'' ''b'' 0 False 1 (sconst 0) 0))
     = map_sum id (\<lambda>e. e\<lparr>Id_ev := ''''\<rparr>)
        (fst (create_random_event Press ''a'' ''p'' ''b'' 0 False 1 (sconst 0) 1))"
    using inst by blast
  show ?thesis
    using ne er by (simp add: e0 e1 uuid4_0 uuid4_1)
qed

section \<open>Anomalous events\<close>

lemma catalog_active:
  assumes "(n, t) \<in> set get_types" "m = Vibration t \<or> m = Temperature t \<or> m = Speed t"
  shows "two_decimals (Min_val m) \<and> two_decimals (Max_val m) \<and> 0 < Min_val m
       \<and> Min_val m \<le> Max_val m \<and> 2 / 25 \<le> Variation m \<and> DefectFactor m \<noteq> 0"
  using get_types_cases [OF assms(1)] assms(2)
  by (auto simp: Assembly_def Press_def Conveyor_def Packaging_def two_decimals_def)

lemma selected_outside:
  assumes "(n, t) \<in> set get_types" "m = Vibration t \<or> m = Temperature t \<or> m = Speed t"
    "1 / 4 \<le> mult"
  shows "outside m (fst (calculate_random_value m True mult g))"
proof -
  note c = catalog_active [OF assms(1,2)]
  have "2 / 25 * mult \<le> Variation m * mult"
    using c assms(3) by (intro mult_right_mono) simp_all
  moreover have "2 / 25 * (1 / 4) \<le> 2 / 25 * mult" using assms(3) by simp
  ultimately have "1 / 50 \<le> Variation m * mult" by linarith
  then have "1 / 200 < Variation m * 0.5 * mult" by simp
  moreover have "0 \<le> Variation m" "0 \<le> mult" using c assms(3) by simp_all
  ultimately show ?thesis using c by (intro anomalous_reading_outside) simp_all
qed

lemma sample_at_min:
  "calculate_random_value m False mult (sconst 0) = (py_round (max 0 (Min_val m)) 2, sconst 0)"
  by (simp add: calculate_random_value_eq random_value_normal uniform_eq random_def)

lemma anomalous_at_max:
  "calculate_random_value m True mult (sconst 0)
     = (py_round (max 0 (Max_val m + Variation m * 0.5 * mult)) 2, sconst 0)"
  by (simp add: calculate_random_value_eq random_value_anomalous anomaly_variation_eq
      uniform_eq random_def coin_eq)

lemma press_humidity_only:
  "fst (create_random_event Press ''a'' ''p'' ''b'' 0 True 1 (1 ## 1 ## 0 ## 1 ## sconst 0) 0)
     = Inr \<lparr>Id_ev = ''00000000-0000-4000-8000-000000000000'', AssetId = ''a'',
            ProductId = ''p'', BatchId = ''b'', Vibration_ev = 0.2, Temperature_ev = 25,
            Humidity_ev = 70, Speed_ev = 20, DefectProbability = 0, Timestamp = 0\<rparr>"
proof -
  have am: "anomaly_metrics True (1 ## 1 ## 0 ## 1 ## sconst 0) = ([''humidity''], sconst 0)"
    by (simp add: anomaly_metrics_def coin_eq)
  have v: "calculate_random_value (Vibration Press) False 1 (sconst 0) = (0.2, sconst 0)"
    unfolding sample_at_min by (simp add: Press_def py_round_def round_half_even_def)
  have t: "calculate_random_value (Temperature Press) False 1 (sconst 0) = (25, sconst 0)"
    unfolding sample_at_min by (simp add: Press_def py_round_def round_half_even_def)
  have h: "calculate_random_value (Humidity Press) True 1 (sconst 0) = (70, sconst 0)"
    unfolding anomalous_at_max by (simp add: Press_def py_round_def round_half_even_def)
  have s: "calculate_random_value (Speed Press) False 1 (sconst 0) = (20, sconst 0)"
    unfolding sample_at_min by (simp add: Press_def py_round_def round_half_even_def)
  have d: "calculate_defect_probability Press 0.2 25 20 (sconst 0) = (Inr 0, sconst 0)"
    by (simp add: calculate_defect_probability_def calc_defect_factor_def Press_def
        uniform_eq random_def py_round_def round_half_even_def)
  have c: "(True \<and> ''vibration'' \<in> set [''humidity'']) = False"
    "(True \<and> ''temperature'' \<in> set [''humidity'']) = False"
    "(True \<and> ''humidity'' \<in> set [''humidity'']) = True"
    "(True \<and> ''speed'' \<in> set [''humidity'']) = False"
    by simp_all
  show ?thesis
    by (simp only: create_random_event_def am prod.case c v t h s d sum.case fst_conv uuid4_0)
qed

lemma press_small_multiplier:
  "fst (create_random_event Press ''a'' ''p'' ''b'' 0 True 0.1 (0 ## 1 ## 1 ## 1 ## sconst 0) 0)
     = Inr \<lparr>Id_ev = ''00000000-0000-4000-8000-000000000000'', AssetId = ''a'',
            ProductId = ''p'', BatchId = ''b'', Vibration_ev = 0.8, Temperature_ev = 25,
            Humidity_ev = 30, Speed_ev = 20, DefectProbability = 0, Timestamp = 0\<rparr>"
proof -
  have am: "anomaly_metrics True (0 ## 1 ## 1 ## 1 ## sconst 0) = ([''vibration''], sconst 0)"
    by (simp add: anomaly_metrics_def coin_eq)
  have v: "calculate_random_value (Vibration Press) True 0.1 (sconst 0) = (0.8, sconst 0)"
    unfolding anomalous_at_max by (simp add: Press_def py_round_def round_half_even_def)
  have t: "calculate_random_value (Temperature Press) False 0.1 (sconst 0) = (25, sconst 0)"
    unfolding sample_at_min by (simp add: Press_def py_round_def round_half_even_def)
  have h: "calculate_random_value (Humidity Press) False 0.1 (sconst 0) = (30, sconst 0)"
    unfolding sample_at_min by (simp add: Press_def py_round_def round_half_even_def)
  have s: "calculate_random_value (Speed Press) False 0.1 (sconst 0) = (20, sconst 0)"
    unfolding sample_at_min by (simp add: Press_def py_round_def round_half_even_def)
  have d: "calculate_defect_probability Press 0.8 25 20 (sconst 0) = (Inr 0, sconst 0)"
    by (simp add: calculate_defect_probability_def calc_defect_factor_def Press_def
        uniform_eq random_def py_round_def round_half_even_def)
  have c: "(True \<and> ''vibration'' \<in> set [''vibration'']) = True"
    "(True \<and> ''temperature'' \<in> set [''vibration'']) = False"
    "(True \<and> ''humidity'' \<in> set [''vibration'']) = False"
    "(True \<and> ''speed'' \<in> set [''vibration'']) = False"
    by simp_all
  show ?thesis
    by (simp only: create_random_event_def am prod.case c v t h s d sum.case fst_conv uuid4_0)
qed

lemma press_inside:
  "\<not> outside (Vibration Press) 0.2" "\<not> outside (Vibration Press) 0.8"
  "\<not> outside (Temperature Press) 25" "\<not> outside (Humidity Press) 70"
  "\<not> outside (Humidity Press) 30" "\<not> outside (Speed Press) 20"
  by (simp_all add: outside_def Press_def)

lemma press_vibration_selected:
  "fst (create_random_event Press ''a'' ''p'' ''b'' 0 True 1 (0 ## 1 ## 1 ## 1 ## sconst 0) 0)
     = Inr \<lparr>Id_ev = ''00000000-0000-4000-8000-000000000000'', AssetId = ''a'',
            ProductId = ''p'', BatchId = ''b'', Vibration_ev = 0.84, Temperature_ev = 25,
            Humidity_ev = 30, Speed_ev = 20, DefectProbability = 0.03, Timestamp = 0\<rparr>"
proof -
  have am: "anomaly_metrics True (0 ## 1 ## 1 ## 1 ## sconst 0) = ([''vibration''], sconst 0)"
    by (simp add: anomaly_metrics_def coin_eq)
  have v: "calculate_random_value (Vibration Press) True 1 (sconst 0) = (0.84, sconst 0)"
    unfolding anomalous_at_max by (simp add: Press_def py_round_def round_half_even_def)
  have t: "calculate_random_value (Temperature Press) False 1 (sconst 0) = (25, sconst 0)"
    unfolding sample_at_min by (simp add: Press_def py_round_def round_half_even_def)
  have h: "calculate_random_value (Humidity Press) False 1 (sconst 0) = (30, sconst 0)"
    unfolding sample_at_min by (simp add: Press_def py_round_def round_half_even_def)
  have s: "calculate_random_value (Speed Press) False 1 (sconst 0) = (20, sconst 0)"
    unfolding sample_at_min by (simp add: Press_def py_round_def round_half_even_def)
  have d: "calculate_defect_probability Press 0.84 25 20 (sconst 0) = (Inr 0.03, sconst 0)"
    by (simp add: calculate_defect_probability_def calc_defect_factor_def Press_def
        uniform_eq random_def py_round_def round_half_even_def)
  have c: "(True \<and> ''vibration'' \<in> set [''vibration'']) = True"
    "(True \<and> ''temperature'' \<in> set [''vibration'']) = False"
    "(True \<and> ''humidity'' \<in> set [''vibration'']) = False"
    "(True \<and> ''speed'' \<in> set [''vibration'']) = False"
    by simp_all
  show ?thesis
    by (simp only: create_random_event_def am prod.case c v t h s d sum.case fst_conv uuid4_0)
qed

text \<open>
  Claim C1, as the code has it. For Press and the default multiplier 1, the draws that
  select humidity alone give an event all four of whose readings lie inside their
  nominal ranges: the humidity metric has \<open>Variation = 0\<close>, so its anomalous value is
  \<open>Max\<close> itself. With the multiplier 0.1 and vibration alone selected, the excursion
  0.004 is rounded away and again no reading is outside.
\<close>

theorem anomalous_event_outside_counterexample:
  "fst (create_random_event Press ''a'' ''p'' ''b'' 0 True 1 (1 ## 1 ## 0 ## 1 ## sconst 0) 0)
     = Inr \<lparr>Id_ev = ''00000000-0000-4000-8000-000000000000'', AssetId = ''a'',
            ProductId = ''p'', BatchId = ''b'', Vibration_ev = 0.2, Temperature_ev = 25,
            Humidity_ev = 70, Speed_ev = 20, DefectProbability = 0, Timestamp = 0\<rparr>
   \<and> \<not> outside (Vibration Press) 0.2 \<and> \<not> outside (Temperature Press) 25
   \<and> \<not> outside (Humidity Press) 70 \<and> \<not> outside (Speed Press) 20
   \<and> fst (create_random_event Press ''a'' ''p'' ''b'' 0 True 0.1 (0 ## 1 ## 1 ## 1 ## sconst 0) 0)
     = Inr \<lparr>Id_ev = ''00000000-0000-4000-8000-000000000000'', AssetId = ''a'',
            ProductId = ''p'', BatchId = ''b'', Vibration_ev = 0.8, Temperature_ev = 25,
            Humidity_ev = 30, Speed_ev = 20, DefectProbability = 0, Timestamp = 0\<rparr>
   \<and> \<not> outside (Vibration Press) 0.8 \<and> \<not> outside (Humidity Press) 30"
  using press_humidity_only press_small_multiplier press_inside by simp

text \<open>
  Claim C1, amended. For every asset type of the table and every multiplier of at
  least \<open>1/4\<close> (the default 1 among them), for which no excursion of vibration,
  temperature or speed is below 0.01, \<open>create_random_event\<close> with \<open>anomaly=True\<close> returns
  an event, the list \<open>anomaly_metrics\<close> is never empty, and each of vibration,
  temperature and speed that is in the list reads strictly outside its nominal range,
  for every outcome of the draws; so at least one reading is outside whenever the list
  is not humidity alone. Nothing is said of the event when humidity alone is selected.
\<close>

theorem anomalous_event_outside:
  assumes "(n, t) \<in> set get_types" "1 / 4 \<le> mult"
  shows "\<exists>ev. fst (create_random_event t a p b ts True mult g u) = Inr ev
           \<and> fst (anomaly_metrics True g) \<noteq> []
           \<and> (''vibration'' \<in> set (fst (anomaly_metrics True g))
                \<longrightarrow> outside (Vibration t) (Vibration_ev ev))
           \<and> (''temperature'' \<in> set (fst (anomaly_metrics True g))
                \<longrightarrow> outside (Temperature t) (Temperature_ev ev))
           \<and> (''speed'' \<in> set (fst (anomaly_metrics True g))
                \<longrightarrow> outside (Speed t) (Speed_ev ev))
           \<and> (fst (anomaly_metrics True g) \<noteq> [''humidity'']
                \<longrightarrow> outside (Vibration t) (Vibration_ev ev)
                  \<or> outside (Temperature t) (Temperature_ev ev)
                  \<or> outside (Humidity t) (Humidity_ev ev)
                  \<or> outside (Speed t) (Speed_ev ev))"
proof -
  let ?ms = "fst (anomaly_metrics True g)"
  have nz: "DefectFactor (Vibration t) \<noteq> 0" "DefectFactor (Temperature t) \<noteq> 0"
    "DefectFactor (Speed t) \<noteq> 0"
    using catalog_active [OF assms(1)] by simp_all
  obtain ev g1 g2 g3 g4 where
    ev: "fst (create_random_event t a p b ts True mult g u) = Inr ev"
    and v: "Vibration_ev ev = fst (calculate_random_value (Vibration t)
               (True \<and> ''vibration'' \<in> set ?ms) mult g1)"
    and te: "Temperature_ev ev = fst (calculate_random_value (Temperature t)
               (True \<and> ''temperature'' \<in> set ?ms) mult g2)"
    and h: "Humidity_ev ev = fst (calculate_random_value (Humidity t)
               (True \<and> ''humidity'' \<in> set ?ms) mult g3)"
    and s: "Speed_ev ev = fst (calculate_random_value (Speed t)
               (True \<and> ''speed'' \<in> set ?ms) mult g4)"
    using create_random_event_nonzero [OF nz, of a p b ts True mult g u] by blast
  have V: "''vibration'' \<in> set ?ms \<longrightarrow> outside (Vibration t) (Vibration_ev ev)"
    using selected_outside [OF assms(1) _ assms(2), of "Vibration t" g1] by (simp add: v)
  have T: "''temperature'' \<in> set ?ms \<longrightarrow> outside (Temperature t) (Temperature_ev ev)"
    using selected_outside [OF assms(1) _ assms(2), of "Temperature t" g2] by (simp add: te)
  have S: "''speed'' \<in> set ?ms \<longrightarrow> outside (Speed t) (Speed_ev ev)"
    using selected_outside [OF assms(1) _ assms(2), of "Speed t" g4] by (simp add: s)
  have sel: "?ms \<noteq> []"
    "?ms = [''humidity''] \<or> ''vibration'' \<in> set ?ms \<or> ''temperature'' \<in> set ?ms
       \<or> ''speed'' \<in> set ?ms"
    using anomaly_metrics_selection [of g] by simp_all
  show ?thesis using ev V T S sel by blast
qed

theorem anomalous_event_outside_witness:
  "(''Press'', Press) \<in> set get_types \<and> (1 / 4 :: real) \<le> 1
   \<and> fst (anomaly_metrics True (0 ## 1 ## 1 ## 1 ## sconst 0)) = [''vibration'']
   \<and> fst (create_random_event Press ''a'' ''p'' ''b'' 0 True 1 (0 ## 1 ## 1 ## 1 ## sconst 0) 0)
     = Inr \<lparr>Id_ev = ''00000000-0000-4000-8000-000000000000'', AssetId = ''a'',
            ProductId = ''p'', BatchId = ''b'', Vibration_ev = 0.84, Temperature_ev = 25,
            Humidity_ev = 30, Speed_ev = 20, DefectProbability = 0.03, Timestamp = 0\<rparr>
   \<and> outside (Vibration Press) 0.84"
proof -
  have a: "(''Press'', Press) \<in> set get_types" by (simp add: get_types_def)
  have b: "(1 / 4 :: real) \<le> 1" by simp
  have am: "fst (anomaly_metrics True (0 ## 1 ## 1 ## 1 ## sconst 0)) = [''vibration'']"
    by (simp add: anomaly_metrics_def coin_eq)
  have "''vibration'' \<in> set [''vibration'']" by simp
  then have "outside (Vibration Press) 0.84"
    using anomalous_event_outside [OF a b, of "''a''" "''p''" "''b''" 0 "0 ## 1 ## 1 ## 1 ## sconst 0" 0]
    unfolding press_vibration_selected am by simp
  then show ?thesis using a b am press_vibration_selected by simp
qed


end
